theory Spec2Isabelle
  imports Complex_Main "HOL-Library.Signed_Division" "HOL-Library.AList"
begin

section \<open>GDScript values\<close>

text \<open>
  The generated scripts are GDScript. Their dictionaries and arrays hold Variants; a
  Variant is modelled by the datatype below, a Dictionary by an association list in
  insertion order. GDScript floats are modelled by the reals: rounding, infinities and
  NaN are outside the model. Debug logging (\<open>_log\<close>) prints and changes no state; it
  is left out everywhere.
\<close>

datatype variant =
    VNull
  | VBool bool
  | VInt int
  | VFloat real
  | VStr string
  | VArray "variant list"
  | VDict "(variant \<times> variant) list"

type_synonym dict = "(variant \<times> variant) list"

definition dict_get :: "dict \<Rightarrow> string \<Rightarrow> variant \<Rightarrow> variant" where
  \<comment> \<open>\<open>d.get(key, default)\<close> with a string key\<close>
  "dict_get d k dflt = (case map_of d (VStr k) of None \<Rightarrow> dflt | Some v \<Rightarrow> v)"


definition dict_has :: "dict \<Rightarrow> string \<Rightarrow> bool" where
  "dict_has d k = (map_of d (VStr k) \<noteq> None)"

fun truthy :: "variant \<Rightarrow> bool" where
  \<comment> \<open>the value of a Variant in a condition\<close>
  "truthy VNull = False"
| "truthy (VBool b) = b"
| "truthy (VInt i) = (i \<noteq> 0)"
| "truthy (VFloat r) = (r \<noteq> 0)"
| "truthy (VStr s) = (s \<noteq> [])"
| "truthy (VArray xs) = (xs \<noteq> [])"
| "truthy (VDict d) = (d \<noteq> [])"

fun num :: "variant \<Rightarrow> real option" where
  \<comment> \<open>a Variant used as a number in arithmetic or in a Vector2; anything but a number
      is a script error there (\<open>None\<close>)\<close>
  "num (VInt i) = Some (of_int i)"
| "num (VFloat r) = Some r"
| "num _ = None"

fun eq_int :: "variant \<Rightarrow> int \<Rightarrow> bool" where
  \<comment> \<open>\<open>v == n\<close> for an integer \<open>n\<close>: numbers compare by value, other types differ\<close>
  "eq_int (VInt i) n = (i = n)"
| "eq_int (VFloat r) n = (r = of_int n)"
| "eq_int _ n = False"

definition trunc :: "real \<Rightarrow> int" where
  \<comment> \<open>float to int: towards zero\<close>
  "trunc r = (if 0 \<le> r then \<lfloor>r\<rfloor> else \<lceil>r\<rceil>)"

fun as_int :: "variant \<Rightarrow> int option" where
  \<comment> \<open>a Variant passed or returned where the script declares \<open>int\<close>\<close>
  "as_int (VInt i) = Some i"
| "as_int (VFloat r) = Some (trunc r)"
| "as_int (VBool b) = Some (if b then 1 else 0)"
| "as_int _ = None"

definition clampf :: "real \<Rightarrow> real \<Rightarrow> real \<Rightarrow> real" where
  "clampf v lo hi = (if v < lo then lo else if v > hi then hi else v)"

definition lerpf :: "real \<Rightarrow> real \<Rightarrow> real \<Rightarrow> real" where
  "lerpf a b t = a + (b - a) * t"

text \<open>
  What the scripts take from the engine: the conversion built-ins \<open>float()\<close>,
  \<open>bool()\<close>, \<open>int()\<close> and \<open>str()\<close>, JSON text, the millisecond clock, and the
  WebSocket. They are parameters of the model; every theorem holds for each engine.
\<close>

datatype ready_state = STATE_CONNECTING | STATE_OPEN | STATE_CLOSING | STATE_CLOSED

record websocket =
  ready :: ready_state
  close_code :: int
  packets :: "string list"
  sent_text :: "string list"

record engine =
  float_of :: "variant \<Rightarrow> real"
  bool_of :: "variant \<Rightarrow> bool"
  int_of :: "variant \<Rightarrow> int"
  str_of :: "variant \<Rightarrow> string"
  json_stringify :: "dict \<Rightarrow> string"
  json_parse :: "string \<Rightarrow> variant option"
  ticks_msec :: int
  ws_poll :: "websocket \<Rightarrow> websocket"
  ws_connect :: "string \<Rightarrow> string \<Rightarrow> websocket \<times> bool"

section \<open>ShardProtocol\<close>

definition MSG_LEAVE_LOBBY :: string where "MSG_LEAVE_LOBBY = ''leave_lobby''"
definition MSG_PLAYER_INPUT :: string where "MSG_PLAYER_INPUT = ''player_input''"
definition MSG_PING :: string where "MSG_PING = ''ping''"
definition MSG_AUTHENTICATED :: string where "MSG_AUTHENTICATED = ''authenticated''"
definition MSG_PONG :: string where "MSG_PONG = ''pong''"
definition MSG_COUNTDOWN :: string where "MSG_COUNTDOWN = ''countdown''"
definition MSG_ROUND_START :: string where "MSG_ROUND_START = ''round_start''"
definition MSG_ROUND_OVER :: string where "MSG_ROUND_OVER = ''round_over''"
definition MSG_MATCH_OVER :: string where "MSG_MATCH_OVER = ''match_over''"

definition CLOSE_INVALID_SESSION :: int where "CLOSE_INVALID_SESSION = 4001"
definition CLOSE_RATE_LIMITED :: int where "CLOSE_RATE_LIMITED = 4008"
definition CLOSE_MESSAGE_TOO_LARGE :: int where "CLOSE_MESSAGE_TOO_LARGE = 4009"

section \<open>ShardConnection\<close>

datatype conn_state = DISCONNECTED | CONNECTING | CONNECTED | AUTHENTICATED

fun state_index :: "conn_state \<Rightarrow> nat" where
  "state_index DISCONNECTED = 0"
| "state_index CONNECTING = 1"
| "state_index CONNECTED = 2"
| "state_index AUTHENTICATED = 3"

datatype conn_signal =
    Sig_connected
  | Sig_disconnected string
  | Sig_authenticated string string
  | Sig_authentication_failed string
  | Sig_reconnected
  | Sig_reconnection_failed
  | Sig_connection_lost
  | Sig_rate_limited
  | Sig_error_received string string
  | Sig_message_received dict
  | Sig_latency_updated int

record connection =
  ws :: "websocket option"
  state :: conn_state
  token :: string
  user_id :: string
  username :: string
  reconnect_attempts :: int
  reconnect_timer :: real
  is_reconnecting :: bool
  was_authenticated :: bool
  match_reconnect_timer :: real
  in_match :: bool
  server_host :: string
  server_port :: int
  auto_reconnect :: bool
  reconnect_delay :: real
  max_reconnect_attempts :: int
  messages_sent :: int
  messages_received :: int
  bytes_sent :: int
  bytes_received :: int
  ping_timer :: real
  ping_sent_time :: int
  current_latency :: int
  latency_buffer :: "int list"

definition MATCH_RECONNECT_TIMEOUT :: real where "MATCH_RECONNECT_TIMEOUT = 60"
definition PING_INTERVAL :: real where "PING_INTERVAL = 5"
definition LATENCY_BUFFER_SIZE :: nat where "LATENCY_BUFFER_SIZE = 5"

definition is_authenticated :: "connection \<Rightarrow> bool" where
  "is_authenticated c = (state c = AUTHENTICATED)"

definition send_message :: "engine \<Rightarrow> connection \<Rightarrow> dict \<Rightarrow> connection" where
  "send_message e c message =
     (if state_index (state c) < state_index CONNECTED then c
      else case ws c of
        None \<Rightarrow> c
      | Some w \<Rightarrow>
          let json_str = json_stringify e message in
          c\<lparr>ws := Some (w\<lparr>sent_text := sent_text w @ [json_str]\<rparr>),
            messages_sent := messages_sent c + 1,
            bytes_sent := bytes_sent c + int (length json_str)\<rparr>)"

section \<open>ShardInput\<close>

definition INPUT_BUFFER_SIZE :: nat where "INPUT_BUFFER_SIZE = 60"

record input_entry =
  tick :: int
  input :: dict

record shard_input =
  current_tick :: int
  input_buffer :: "input_entry list"
  inputs_sent :: int

datatype input_signal = Sig_input_sent int dict

definition validate_input :: "engine \<Rightarrow> dict \<Rightarrow> dict" where
  "validate_input e inp =
     [(VStr ''move_x'', VFloat (clampf (float_of e (dict_get inp ''move_x'' (VFloat 0))) (- 1) 1)),
      (VStr ''move_y'', VFloat (clampf (float_of e (dict_get inp ''move_y'' (VFloat 0))) (- 1) 1)),
      (VStr ''jump'', VBool (bool_of e (dict_get inp ''jump'' (VBool False)))),
      (VStr ''pickup'', VBool (bool_of e (dict_get inp ''pickup'' (VBool False)))),
      (VStr ''use_weapon'', VBool (bool_of e (dict_get inp ''use_weapon'' (VBool False)))),
      (VStr ''drop_weapon'', VBool (bool_of e (dict_get inp ''drop_weapon'' (VBool False)))),
      (VStr ''aim_angle'', VFloat (float_of e (dict_get inp ''aim_angle'' (VFloat 0))))]"

function pop_front_while_over :: "nat \<Rightarrow> 'a list \<Rightarrow> 'a list" where
  \<comment> \<open>\<open>while buf.size() > n: buf.pop_front()\<close>\<close>
  "pop_front_while_over n buf =
     (if length buf > n then pop_front_while_over n (tl buf) else buf)"
  by pat_completeness auto
termination
  by (relation "measure (\<lambda>(n, buf). length buf)") auto

declare pop_front_while_over.simps [simp del]

definition store_input :: "shard_input \<Rightarrow> int \<Rightarrow> dict \<Rightarrow> shard_input" where
  "store_input s t inp =
     s\<lparr>input_buffer :=
         pop_front_while_over INPUT_BUFFER_SIZE
           (input_buffer s @ [\<lparr>tick = t, input = inp\<rparr>])\<rparr>"

definition input_message :: "engine \<Rightarrow> int \<Rightarrow> dict \<Rightarrow> dict" where
  "input_message e t validated_input =
     [(VStr ''type'', VStr MSG_PLAYER_INPUT),
      (VStr ''timestamp'', VInt (ticks_msec e)),
      (VStr ''tick'', VInt t),
      (VStr ''input'', VDict validated_input)]"

definition send_input ::
  "engine \<Rightarrow> shard_input \<Rightarrow> connection option \<Rightarrow> dict \<Rightarrow> bool
     \<Rightarrow> shard_input \<times> connection option \<times> input_signal list" where
  "send_input e s connection inp is_playing =
     (if \<not> is_playing then (s, connection, [])
      else case connection of
        None \<Rightarrow> (s, connection, [])
      | Some c \<Rightarrow>
          if \<not> is_authenticated c then (s, connection, [])
          else
            let t = current_tick s + 1;
                validated_input = validate_input e inp;
                c' = send_message e c (input_message e t validated_input);
                s' = store_input (s\<lparr>current_tick := t, inputs_sent := inputs_sent s + 1\<rparr>)
                       t validated_input
            in (s', Some c', [Sig_input_sent t validated_input]))"


function pop_front_while_le :: "int \<Rightarrow> input_entry list \<Rightarrow> input_entry list" where
  \<comment> \<open>\<open>while buf.size() > 0 and buf[0].tick <= t: buf.pop_front()\<close>\<close>
  "pop_front_while_le t buf =
     (if length buf > 0 \<and> tick (hd buf) \<le> t then pop_front_while_le t (tl buf) else buf)"
  by pat_completeness auto
termination
  by (relation "measure (\<lambda>(t, buf). length buf)") auto

declare pop_front_while_le.simps [simp del]

definition clear_inputs_before_tick :: "shard_input \<Rightarrow> int \<Rightarrow> shard_input" where
  "clear_inputs_before_tick s t = s\<lparr>input_buffer := pop_front_while_le t (input_buffer s)\<rparr>"

fun get_input_at_tick_in :: "input_entry list \<Rightarrow> int \<Rightarrow> dict" where
  "get_input_at_tick_in [] t = []"
| "get_input_at_tick_in (entry # rest) t =
     (if tick entry = t then input entry else get_input_at_tick_in rest t)"

definition get_input_at_tick :: "shard_input \<Rightarrow> int \<Rightarrow> dict" where
  "get_input_at_tick s t = get_input_at_tick_in (input_buffer s) t"

definition get_buffer_size :: "shard_input \<Rightarrow> int" where
  "get_buffer_size s = int (length (input_buffer s))"

definition set_tick :: "shard_input \<Rightarrow> int \<Rightarrow> shard_input" where
  "set_tick s t = s\<lparr>current_tick := t\<rparr>"

definition input_reset :: "shard_input \<Rightarrow> shard_input" where
  "input_reset s = s\<lparr>current_tick := 0, input_buffer := [], inputs_sent := 0\<rparr>"

definition shard_input_init :: shard_input where
  \<comment> \<open>the field initialisers of ShardInput\<close>
  "shard_input_init = \<lparr>current_tick = 0, input_buffer = [], inputs_sent = 0\<rparr>"

section \<open>ShardState\<close>

text \<open>
  A script error (an operation on a Variant of the wrong type) ends the call that meets
  it. Where a call can meet one after it has started to change state, its result is a
  \<open>result\<close>, and \<open>Script_error\<close> says nothing about the state left behind.
\<close>

datatype 'a result = Script_error | Ok 'a

fun as_array :: "variant \<Rightarrow> variant list result" where
  "as_array (VArray xs) = Ok xs"
| "as_array _ = Script_error"

fun as_dict :: "variant \<Rightarrow> dict result" where
  "as_dict (VDict d) = Ok d"
| "as_dict _ = Script_error"

definition SNAPSHOT_BUFFER_SIZE :: nat where "SNAPSHOT_BUFFER_SIZE = 3"

record snapshot =
  snap_tick :: variant
  snap_timestamp :: variant
  server_time :: int
  last_processed_input :: variant
  players :: variant
  projectiles :: variant
  pickups :: variant

record shard_state =
  snapshots :: "snapshot list"
  interpolation_delay :: int
  snapshots_received :: int

datatype state_signal = Sig_state_received snapshot

definition shard_state_init :: shard_state where
  \<comment> \<open>the field initialisers of ShardState\<close>
  "shard_state_init = \<lparr>snapshots = [], interpolation_delay = 100, snapshots_received = 0\<rparr>"

definition make_snapshot :: "engine \<Rightarrow> dict \<Rightarrow> snapshot" where
  "make_snapshot e message =
     \<lparr>snap_tick = dict_get message ''tick'' (VInt 0),
      snap_timestamp = dict_get message ''timestamp'' (VInt 0),
      server_time = ticks_msec e,
      last_processed_input = dict_get message ''last_processed_input'' (VDict []),
      players = dict_get message ''players'' (VArray []),
      projectiles = dict_get message ''projectiles'' (VArray []),
      pickups = dict_get message ''pickups'' (VArray [])\<rparr>"

definition handle_snapshot ::
  "engine \<Rightarrow> shard_state \<Rightarrow> dict \<Rightarrow> shard_state \<times> state_signal list" where
  "handle_snapshot e s message =
     (let snapshot = make_snapshot e message in
      (s\<lparr>snapshots := pop_front_while_over SNAPSHOT_BUFFER_SIZE (snapshots s @ [snapshot]),
         snapshots_received := snapshots_received s + 1\<rparr>,
       [Sig_state_received snapshot]))"

definition get_latest_state :: "shard_state \<Rightarrow> snapshot option" where
  \<comment> \<open>\<open>None\<close> is the empty Dictionary returned when no snapshot is buffered\<close>
  "get_latest_state s = (if snapshots s = [] then None else Some (last (snapshots s)))"

fun find_player_in :: "variant list \<Rightarrow> int \<Rightarrow> dict option result" where
  \<comment> \<open>the loop of \<open>_find_player_by_peer_id\<close> and of \<open>_find_my_player\<close>\<close>
  "find_player_in [] peer_id = Ok None"
| "find_player_in (player # rest) peer_id =
     (case as_dict player of
        Script_error \<Rightarrow> Script_error
      | Ok d \<Rightarrow>
          if eq_int (dict_get d ''peer_id'' (VInt (- 1))) peer_id then Ok (Some d)
          else find_player_in rest peer_id)"

definition find_player_by_peer_id :: "variant list \<Rightarrow> variant \<Rightarrow> dict option result" where
  \<comment> \<open>the parameter is declared \<open>peer_id: int\<close>\<close>
  "find_player_by_peer_id ps peer_id =
     (case as_int peer_id of None \<Rightarrow> Script_error | Some n \<Rightarrow> find_player_in ps n)"

definition interpolate_player :: "dict \<Rightarrow> dict \<Rightarrow> real \<Rightarrow> variant result" where
  \<comment> \<open>the Dictionary built for a player found in both snapshots\<close>
  "interpolate_player old_player new_player t =
     (case (num (dict_get old_player ''x'' (VFloat 0)), num (dict_get new_player ''x'' (VFloat 0)),
            num (dict_get old_player ''y'' (VFloat 0)), num (dict_get new_player ''y'' (VFloat 0))) of
        (Some ox, Some nx, Some oy, Some ny) \<Rightarrow>
          Ok (VDict
            [(VStr ''peer_id'', dict_get new_player ''peer_id'' (VInt (- 1))),
             (VStr ''x'', VFloat (lerpf ox nx t)),
             (VStr ''y'', VFloat (lerpf oy ny t)),
             (VStr ''vx'', dict_get new_player ''vx'' (VFloat 0)),
             (VStr ''vy'', dict_get new_player ''vy'' (VFloat 0)),
             (VStr ''health'', dict_get new_player ''health'' (VInt 100)),
             (VStr ''weapon'', dict_get new_player ''weapon'' VNull),
             (VStr ''weapon_cooldown'', dict_get new_player ''weapon_cooldown'' (VFloat 0)),
             (VStr ''state'', dict_get new_player ''state'' (VStr ''alive''))])
      | _ \<Rightarrow> Script_error)"

fun interpolate_players_in :: "variant list \<Rightarrow> variant list \<Rightarrow> real \<Rightarrow> variant list result" where
  "interpolate_players_in older_players [] t = Ok []"
| "interpolate_players_in older_players (new_player # rest) t =
     (case as_dict new_player of
        Script_error \<Rightarrow> Script_error
      | Ok np \<Rightarrow>
          (case find_player_by_peer_id older_players (dict_get np ''peer_id'' (VInt (- 1))) of
             Script_error \<Rightarrow> Script_error
           | Ok found \<Rightarrow>
               (case (case found of
                        Some op \<Rightarrow> interpolate_player op np t
                      | None \<Rightarrow> Ok (VDict np)) of
                  Script_error \<Rightarrow> Script_error
                | Ok p \<Rightarrow>
                    (case interpolate_players_in older_players rest t of
                       Script_error \<Rightarrow> Script_error
                     | Ok ps \<Rightarrow> Ok (p # ps)))))"

definition interpolate_players :: "variant \<Rightarrow> variant \<Rightarrow> real \<Rightarrow> variant list result" where
  \<comment> \<open>both parameters are declared \<open>Array\<close>\<close>
  "interpolate_players older_players newer_players t =
     (case (as_array older_players, as_array newer_players) of
        (Ok ops, Ok nps) \<Rightarrow> interpolate_players_in ops nps t
      | _ \<Rightarrow> Script_error)"

fun find_bracket :: "real \<Rightarrow> snapshot list \<Rightarrow> (snapshot \<times> snapshot) option" where
  \<comment> \<open>the search loop of \<open>get_interpolated_state\<close>: the first adjacent pair around the target\<close>
  "find_bracket target_time (snap_older # snap_newer # rest) =
     (if of_int (server_time snap_older) \<le> target_time
         \<and> of_int (server_time snap_newer) \<ge> target_time
      then Some (snap_older, snap_newer)
      else find_bracket target_time (snap_newer # rest))"
| "find_bracket target_time _ = None"

definition interpolation_t :: "real \<Rightarrow> snapshot \<Rightarrow> snapshot \<Rightarrow> real" where
  "interpolation_t target_time older newer =
     (let time_diff = server_time newer - server_time older;
          t = (if time_diff > 0
               then (target_time - of_int (server_time older)) / of_int time_diff
               else 0)
      in clampf t 0 1)"

definition get_interpolated_state :: "shard_state \<Rightarrow> real \<Rightarrow> snapshot option result" where
  "get_interpolated_state s render_time =
     (if length (snapshots s) < 2 then Ok (get_latest_state s)
      else
        let target_time = render_time - of_int (interpolation_delay s) in
        case find_bracket target_time (snapshots s) of
          None \<Rightarrow> Ok (get_latest_state s)
        | Some (older, newer) \<Rightarrow>
            let t = interpolation_t target_time older newer in
            (case interpolate_players (players older) (players newer) t of
               Script_error \<Rightarrow> Script_error
             | Ok ps \<Rightarrow>
                 Ok (Some
                   \<lparr>snap_tick = snap_tick newer,
                    snap_timestamp = snap_timestamp newer,
                    server_time =
                      trunc (lerpf (of_int (server_time older)) (of_int (server_time newer)) t),
                    last_processed_input = last_processed_input newer,
                    players = VArray ps,
                    projectiles = projectiles newer,
                    pickups = pickups newer\<rparr>)))"


section \<open>ShardPrediction\<close>












section \<open>ShardConnection: latency, closure and reconnection\<close>

definition get_average_latency :: "connection \<Rightarrow> int" where
  \<comment> \<open>\<open>sum\<close> and the size are integers: \<open>/\<close> is the integer division, towards zero\<close>
  "get_average_latency c =
     (if latency_buffer c = [] then 0
      else sum_list (latency_buffer c) sdiv int (length (latency_buffer c)))"

definition handle_pong :: "engine \<Rightarrow> connection \<Rightarrow> dict \<Rightarrow> connection \<times> conn_signal list" where
  "handle_pong e c message =
     (let rtt = ticks_msec e - ping_sent_time c;
          buf = latency_buffer c @ [rtt];
          buf' = (if length buf > LATENCY_BUFFER_SIZE then tl buf else buf)
      in (c\<lparr>current_latency := rtt, latency_buffer := buf'\<rparr>, [Sig_latency_updated rtt]))"

definition send_ping :: "engine \<Rightarrow> connection \<Rightarrow> connection" where
  "send_ping e c =
     send_message e (c\<lparr>ping_sent_time := ticks_msec e\<rparr>)
       [(VStr ''type'', VStr MSG_PING), (VStr ''timestamp'', VInt (ticks_msec e))]"

definition on_connected :: "connection \<Rightarrow> connection \<times> conn_signal list" where
  "on_connected c = (c\<lparr>state := CONNECTED\<rparr>, [Sig_connected])"

definition clear_user_info :: "connection \<Rightarrow> connection" where
  "clear_user_info c = c\<lparr>user_id := [], username := []\<rparr>"

definition pow2 :: "int \<Rightarrow> real" where
  \<comment> \<open>\<open>pow(2, n)\<close> for an integer \<open>n\<close>\<close>
  "pow2 n = (if 0 \<le> n then 2 ^ nat n else 1 / 2 ^ nat (- n))"

definition schedule_reconnect :: "connection \<Rightarrow> connection" where
  "schedule_reconnect c =
     (let delay = reconnect_delay c * pow2 (reconnect_attempts c)
      in c\<lparr>reconnect_timer := min delay 30\<rparr>)"

definition start_reconnection :: "connection \<Rightarrow> connection \<times> conn_signal list" where
  "start_reconnection c =
     (if token c = [] then (c, [Sig_reconnection_failed])
      else (schedule_reconnect
              (c\<lparr>is_reconnecting := True, reconnect_attempts := 0, match_reconnect_timer := 0\<rparr>),
            []))"

definition server_url :: "engine \<Rightarrow> connection \<Rightarrow> string" where
  "server_url e c = ''ws://'' @ server_host c @ '':'' @ str_of e (VInt (server_port c))"

definition attempt_reconnect :: "engine \<Rightarrow> connection \<Rightarrow> connection \<times> conn_signal list" where
  "attempt_reconnect e c =
     (if \<not> is_reconnecting c then (c, [])
      else
        let c1 = c\<lparr>reconnect_attempts := reconnect_attempts c + 1\<rparr> in
        if reconnect_attempts c1 > max_reconnect_attempts c1
        then (c1\<lparr>is_reconnecting := False\<rparr>, [Sig_reconnection_failed])
        else if in_match c1 \<and> match_reconnect_timer c1 \<ge> MATCH_RECONNECT_TIMEOUT
        then (c1\<lparr>is_reconnecting := False, in_match := False\<rparr>, [Sig_reconnection_failed])
        else
          let (w, ok) = ws_connect e (server_url e c1) (''Authorization: Bearer '' @ token c1);
              c2 = c1\<lparr>state := CONNECTING, ws := Some w\<rparr>
          in if \<not> ok then (schedule_reconnect (c2\<lparr>state := DISCONNECTED\<rparr>), [])
             else (c2, []))"

definition on_disconnected :: "connection \<Rightarrow> connection \<times> conn_signal list" where
  "on_disconnected c =
     (let code = (case ws c of Some w \<Rightarrow> close_code w | None \<Rightarrow> 0);
          previous_state = state c;
          c1 = c\<lparr>state := DISCONNECTED\<rparr>
      in if code = CLOSE_INVALID_SESSION
         then (clear_user_info c1, [Sig_authentication_failed ''Invalid or expired session''])
         else if code = CLOSE_RATE_LIMITED
         then (c1, [Sig_rate_limited])
         else
           let sigs = (if code = CLOSE_MESSAGE_TOO_LARGE
                       then [Sig_error_received ''message_too_large'' ''Message exceeded 4KB limit'']
                       else [])
           in if previous_state = AUTHENTICATED \<and> auto_reconnect c1
              then (let (c2, sigs2) = start_reconnection (c1\<lparr>was_authenticated := True\<rparr>)
                    in (c2, sigs @ [Sig_connection_lost] @ sigs2))
              else (c1, sigs @ [Sig_disconnected ''Connection closed'']))"

definition handle_authenticated ::
  "engine \<Rightarrow> connection \<Rightarrow> dict \<Rightarrow> connection \<times> conn_signal list" where
  \<comment> \<open>a \<open>user\<close> that is not a Dictionary ends the handler before anything is assigned\<close>
  "handle_authenticated e c message =
     (if \<not> dict_has message ''user'' then (c, [])
      else case dict_get message ''user'' VNull of
        VDict user \<Rightarrow>
          if \<not> dict_has user ''id'' \<or> \<not> dict_has user ''username'' then (c, [])
          else
            let c1 = c\<lparr>user_id := str_of e (dict_get user ''id'' VNull),
                       username := str_of e (dict_get user ''username'' VNull),
                       state := AUTHENTICATED\<rparr>
            in if is_reconnecting c1
               then (c1\<lparr>is_reconnecting := False, reconnect_attempts := 0,
                         match_reconnect_timer := 0\<rparr>, [Sig_reconnected])
               else (c1, [Sig_authenticated (user_id c1) (username c1)])
      | _ \<Rightarrow> (c, []))"

fun process_packets ::
  "engine \<Rightarrow> connection \<Rightarrow> string list \<Rightarrow> connection \<times> conn_signal list" where
  \<comment> \<open>the loop of \<open>_process_incoming\<close> over the packets the socket holds\<close>
  "process_packets e c [] = (c, [])"
| "process_packets e c (packet # rest) =
     (let c1 = c\<lparr>messages_received := messages_received c + 1,
                bytes_received := bytes_received c + int (length packet)\<rparr>;
          (c2, sigs) =
            (case json_parse e packet of
               Some (VDict message) \<Rightarrow>
                 if \<not> dict_has message ''type'' then (c1, [])
                 else if dict_get message ''type'' VNull = VStr MSG_AUTHENTICATED
                 then handle_authenticated e c1 message
                 else if dict_get message ''type'' VNull = VStr MSG_PONG
                 then handle_pong e c1 message
                 else (c1, [Sig_message_received message])
             | _ \<Rightarrow> (c1, []));
          (c3, sigs') = process_packets e c2 rest
      in (c3, sigs @ sigs'))"

definition process_incoming :: "engine \<Rightarrow> connection \<Rightarrow> connection \<times> conn_signal list" where
  "process_incoming e c =
     (case ws c of
        None \<Rightarrow> (c, [])
      | Some w \<Rightarrow> process_packets e (c\<lparr>ws := Some (w\<lparr>packets := []\<rparr>)\<rparr>) (packets w))"

definition poll_socket :: "engine \<Rightarrow> connection \<Rightarrow> connection \<times> conn_signal list" where
  \<comment> \<open>the first block of \<open>poll\<close>\<close>
  "poll_socket e c =
     (case ws c of
        None \<Rightarrow> (c, [])
      | Some w0 \<Rightarrow>
          let w = ws_poll e w0; c0 = c\<lparr>ws := Some w\<rparr> in
          (case ready w of
             STATE_OPEN \<Rightarrow>
               let (c1, sigs1) = (if state c0 = CONNECTING then on_connected c0 else (c0, []));
                   (c2, sigs2) = process_incoming e c1
               in (c2, sigs1 @ sigs2)
           | STATE_CLOSED \<Rightarrow>
               if state c0 \<noteq> DISCONNECTED then on_disconnected c0 else (c0, [])
           | _ \<Rightarrow> (c0, [])))"

definition poll_reconnect :: "engine \<Rightarrow> connection \<Rightarrow> real \<Rightarrow> connection \<times> conn_signal list" where
  \<comment> \<open>the reconnection timer block of \<open>poll\<close>\<close>
  "poll_reconnect e c delta =
     (if is_reconnecting c \<and> state c = DISCONNECTED
      then let c1 = c\<lparr>reconnect_timer := reconnect_timer c - delta\<rparr>
           in if reconnect_timer c1 \<le> 0 then attempt_reconnect e c1 else (c1, [])
      else (c, []))"

definition poll_ping :: "engine \<Rightarrow> connection \<Rightarrow> real \<Rightarrow> connection" where
  \<comment> \<open>the ping timer block of \<open>poll\<close>\<close>
  "poll_ping e c delta =
     (if state c = AUTHENTICATED
      then let c1 = c\<lparr>ping_timer := ping_timer c + delta\<rparr>
           in if ping_timer c1 \<ge> PING_INTERVAL then (send_ping e c1)\<lparr>ping_timer := 0\<rparr> else c1
      else c)"

definition poll_match_timeout :: "connection \<Rightarrow> real \<Rightarrow> connection \<times> conn_signal list" where
  \<comment> \<open>the match reconnection timeout block of \<open>poll\<close>\<close>
  "poll_match_timeout c delta =
     (if in_match c \<and> is_reconnecting c
      then let c1 = c\<lparr>match_reconnect_timer := match_reconnect_timer c + delta\<rparr>
           in if match_reconnect_timer c1 \<ge> MATCH_RECONNECT_TIMEOUT
              then (c1\<lparr>is_reconnecting := False, in_match := False\<rparr>, [Sig_reconnection_failed])
              else (c1, [])
      else (c, []))"

definition poll :: "engine \<Rightarrow> connection \<Rightarrow> real \<Rightarrow> connection \<times> conn_signal list" where
  "poll e c delta =
     (let (c1, sigs1) = poll_socket e c;
          (c2, sigs2) = poll_reconnect e c1 delta;
          c3 = poll_ping e c2 delta;
          (c4, sigs4) = poll_match_timeout c3 delta
      in (c4, sigs1 @ sigs2 @ sigs4))"

section \<open>ShardMatch\<close>

datatype match_phase = LOBBY | COUNTDOWN | PLAYING | ROUND_OVER | MATCH_OVER

record shard_match =
  match_state :: match_phase
  current_round :: int
  scores :: "(int \<times> int) list"
  spawn_positions :: "variant list"
  weapon_spawns :: "variant list"
  final_winner_peer_id :: int
  final_winner_username :: string
  final_scores :: "variant list"

datatype match_signal =
    Sig_countdown int
  | Sig_round_started int "variant list" "variant list"
  | Sig_round_ended int "(int \<times> int) list"
  | Sig_match_ended int string "variant list"

definition shard_match_init :: shard_match where
  \<comment> \<open>the field initialisers of ShardMatch\<close>
  "shard_match_init =
     \<lparr>match_state = LOBBY, current_round = 0, scores = [], spawn_positions = [],
      weapon_spawns = [], final_winner_peer_id = - 1, final_winner_username = [],
      final_scores = []\<rparr>"

definition handle_countdown ::
  "engine \<Rightarrow> shard_match \<Rightarrow> dict \<Rightarrow> shard_match \<times> match_signal list" where
  "handle_countdown e m message =
     (if \<not> dict_has message ''seconds'' then (m, [])
      else
        let seconds = int_of e (dict_get message ''seconds'' VNull)
        in (m\<lparr>match_state := COUNTDOWN\<rparr>, [Sig_countdown seconds]))"

definition array_field :: "dict \<Rightarrow> string \<Rightarrow> variant list" where
  \<comment> \<open>\<open>[]\<close>, replaced by a copy of the field when the message has it and it is an Array\<close>
  "array_field message k =
     (if dict_has message k
      then (case dict_get message k VNull of VArray xs \<Rightarrow> xs | _ \<Rightarrow> [])
      else [])"

definition handle_round_start ::
  "engine \<Rightarrow> shard_match \<Rightarrow> dict \<Rightarrow> shard_match \<times> match_signal list" where
  "handle_round_start e m message =
     (if \<not> dict_has message ''round'' then (m, [])
      else
        let m' = m\<lparr>current_round := int_of e (dict_get message ''round'' VNull),
                   match_state := PLAYING,
                   spawn_positions := array_field message ''spawn_positions'',
                   weapon_spawns := array_field message ''weapon_spawns''\<rparr>
        in (m', [Sig_round_started (current_round m') (spawn_positions m') (weapon_spawns m')]))"

fun parse_scores_in :: "engine \<Rightarrow> (int \<times> int) list \<Rightarrow> variant list \<Rightarrow> (int \<times> int) list" where
  \<comment> \<open>the loop of \<open>_parse_scores\<close>; \<open>_scores[peer_id] = rounds_won\<close> is \<open>AList.update\<close>\<close>
  "parse_scores_in e sc [] = sc"
| "parse_scores_in e sc (s # rest) =
     (case s of
        VDict d \<Rightarrow>
          if \<not> dict_has d ''peer_id'' then parse_scores_in e sc rest
          else
            let peer_id = int_of e (dict_get d ''peer_id'' VNull);
                rounds_won = int_of e (dict_get d ''rounds_won'' (VInt 0))
            in parse_scores_in e (AList.update peer_id rounds_won sc) rest
      | _ \<Rightarrow> parse_scores_in e sc rest)"

definition parse_scores :: "engine \<Rightarrow> shard_match \<Rightarrow> variant \<Rightarrow> shard_match" where
  "parse_scores e m scores_array =
     (case scores_array of
        VArray xs \<Rightarrow> m\<lparr>scores := parse_scores_in e (scores m) xs\<rparr>
      | _ \<Rightarrow> m)"

definition parse_final_scores :: "engine \<Rightarrow> shard_match \<Rightarrow> variant \<Rightarrow> shard_match" where
  "parse_final_scores e m scores_array = parse_scores e (m\<lparr>scores := []\<rparr>) scores_array"

definition handle_round_over ::
  "engine \<Rightarrow> shard_match \<Rightarrow> dict \<Rightarrow> shard_match \<times> match_signal list" where
  "handle_round_over e m message =
     (let m1 = m\<lparr>match_state := ROUND_OVER\<rparr>;
          winner_peer_id = (if dict_has message ''winner_peer_id''
                            then int_of e (dict_get message ''winner_peer_id'' VNull) else - 1);
          m2 = (if dict_has message ''scores''
                then parse_scores e m1 (dict_get message ''scores'' VNull) else m1)
      in (m2, [Sig_round_ended winner_peer_id (scores m2)]))"

definition handle_match_over ::
  "engine \<Rightarrow> shard_match \<Rightarrow> dict \<Rightarrow> shard_match \<times> match_signal list" where
  "handle_match_over e m message =
     (let m1 = m\<lparr>match_state := MATCH_OVER,
                 final_winner_peer_id :=
                   (if dict_has message ''winner_peer_id''
                    then int_of e (dict_get message ''winner_peer_id'' VNull) else - 1),
                 final_winner_username :=
                   (if dict_has message ''winner_username''
                    then str_of e (dict_get message ''winner_username'' VNull) else []),
                 final_scores := []\<rparr>;
          m2 = (if dict_has message ''final_scores''
                then (case dict_get message ''final_scores'' VNull of
                        VArray xs \<Rightarrow> parse_final_scores e (m1\<lparr>final_scores := xs\<rparr>) (VArray xs)
                      | _ \<Rightarrow> m1)
                else m1)
      in (m2, [Sig_match_ended (final_winner_peer_id m2) (final_winner_username m2)
                 (final_scores m2)]))"

definition match_handle_message ::
  "engine \<Rightarrow> shard_match \<Rightarrow> dict \<Rightarrow> (shard_match \<times> match_signal list) \<times> bool" where
  \<comment> \<open>\<open>handle_message\<close> of ShardMatch\<close>
  "match_handle_message e m message =
     (if \<not> dict_has message ''type'' then ((m, []), False)
      else
        let ty = dict_get message ''type'' VNull in
        if ty = VStr MSG_COUNTDOWN then (handle_countdown e m message, True)
        else if ty = VStr MSG_ROUND_START then (handle_round_start e m message, True)
        else if ty = VStr MSG_ROUND_OVER then (handle_round_over e m message, True)
        else if ty = VStr MSG_MATCH_OVER then (handle_match_over e m message, True)
        else ((m, []), False))"

definition match_reset :: "shard_match \<Rightarrow> shard_match" where
  \<comment> \<open>\<open>reset\<close> of ShardMatch\<close>
  "match_reset m =
     m\<lparr>match_state := LOBBY, current_round := 0, scores := [], spawn_positions := [],
       weapon_spawns := [], final_winner_peer_id := - 1, final_winner_username := [],
       final_scores := []\<rparr>"

definition return_to_lobby :: "shard_match \<Rightarrow> shard_match" where
  "return_to_lobby m =
     m\<lparr>match_state := LOBBY, current_round := 0, spawn_positions := [], weapon_spawns := []\<rparr>"

section \<open>ShardLobby\<close>

record shard_lobby =
  lobby_code :: string
  lobby_players :: "(int \<times> dict) list"
  lobby_my_peer_id :: int
  host_peer_id :: int

datatype lobby_signal = Sig_lobby_left

definition clear_state :: "shard_lobby \<Rightarrow> shard_lobby" where
  "clear_state l = l\<lparr>lobby_code := [], lobby_players := [], host_peer_id := - 1\<rparr>"

definition leave_lobby ::
  "engine \<Rightarrow> shard_lobby \<Rightarrow> connection option
     \<Rightarrow> shard_lobby \<times> connection option \<times> lobby_signal list" where
  "leave_lobby e l connection =
     (case connection of
        None \<Rightarrow> (l, connection, [])
      | Some c \<Rightarrow>
          if \<not> is_authenticated c then (l, connection, [])
          else if lobby_code l = [] then (l, connection, [])
          else
            let message = [(VStr ''type'', VStr MSG_LEAVE_LOBBY),
                           (VStr ''timestamp'', VInt (ticks_msec e))]
            in (clear_state l, Some (send_message e c message), [Sig_lobby_left]))"

section \<open>Vocabulary of the properties\<close>

definition score_entries_of :: "engine \<Rightarrow> variant \<Rightarrow> (int \<times> int) option" where
  \<comment> \<open>the peer id and rounds won that one element of a scores payload carries: an
      element that is not a Dictionary or has no peer id carries none\<close>
  "score_entries_of e s =
     (case s of
        VDict d \<Rightarrow>
          if dict_has d ''peer_id''
          then Some (int_of e (dict_get d ''peer_id'' VNull),
                     int_of e (dict_get d ''rounds_won'' (VInt 0)))
          else None
      | _ \<Rightarrow> None)"

definition score_entries :: "engine \<Rightarrow> variant list \<Rightarrow> (int \<times> int) list" where
  \<comment> \<open>the entries of a scores payload, in payload order\<close>
  "score_entries e xs = List.map_filter (score_entries_of e) xs"

definition player_ok :: "variant \<Rightarrow> bool" where
  \<comment> \<open>a player state as the server sends it: a Dictionary whose position, if present,
      is numeric and whose peer id, if present, is a number\<close>
  "player_ok p =
     (case p of
        VDict d \<Rightarrow>
          num (dict_get d ''x'' (VFloat 0)) \<noteq> None \<and> num (dict_get d ''y'' (VFloat 0)) \<noteq> None
          \<and> as_int (dict_get d ''peer_id'' (VInt (- 1))) \<noteq> None
      | _ \<Rightarrow> False)"

definition other_peer :: "int \<Rightarrow> variant \<Rightarrow> bool" where
  \<comment> \<open>a player state of a peer other than \<open>pid\<close>\<close>
  "other_peer pid q =
     (case q of
        VDict d \<Rightarrow> \<not> eq_int (dict_get d ''peer_id'' (VInt (- 1))) pid
      | _ \<Rightarrow> False)"

definition first_with_peer :: "variant list \<Rightarrow> int \<Rightarrow> dict \<Rightarrow> bool" where
  \<comment> \<open>\<open>player\<close> is the first player state of peer \<open>pid\<close> in the list\<close>
  "first_with_peer ps pid player =
     (\<exists>before after. ps = before @ VDict player # after
        \<and> (\<forall>q\<in>set before. other_peer pid q)
        \<and> eq_int (dict_get player ''peer_id'' (VInt (- 1))) pid)"

definition brackets :: "real \<Rightarrow> snapshot list \<Rightarrow> nat \<Rightarrow> bool" where
  \<comment> \<open>the receipt times of the snapshots at positions \<open>i\<close> and \<open>i + 1\<close> bracket the target\<close>
  "brackets target snaps i =
     (Suc i < length snaps
      \<and> of_int (server_time (snaps ! i)) \<le> target
      \<and> target \<le> of_int (server_time (snaps ! Suc i)))"

definition blended :: "variant list \<Rightarrow> real \<Rightarrow> variant \<Rightarrow> variant \<Rightarrow> bool" where
  \<comment> \<open>what the claim on interpolation says of one player \<open>new\<close> of the newer snapshot
      and the player \<open>res\<close> returned for it, given the players \<open>ops\<close> of the older
      snapshot and the blend parameter \<open>t\<close>: a player whose peer is listed in \<open>ops\<close>
      has its position blended with the first such entry and every other field from
      \<open>new\<close>; a player whose peer is not listed is returned as it is\<close>
  "blended ops t new res =
     (\<exists>np pid. new = VDict np \<and> as_int (dict_get np ''peer_id'' (VInt (- 1))) = Some pid
        \<and> ((\<exists>op ox oy nx ny.
               first_with_peer ops pid op
               \<and> num (dict_get op ''x'' (VFloat 0)) = Some ox
               \<and> num (dict_get op ''y'' (VFloat 0)) = Some oy
               \<and> num (dict_get np ''x'' (VFloat 0)) = Some nx
               \<and> num (dict_get np ''y'' (VFloat 0)) = Some ny
               \<and> res = VDict
                    [(VStr ''peer_id'', dict_get np ''peer_id'' (VInt (- 1))),
                     (VStr ''x'', VFloat (ox + (nx - ox) * t)),
                     (VStr ''y'', VFloat (oy + (ny - oy) * t)),
                     (VStr ''vx'', dict_get np ''vx'' (VFloat 0)),
                     (VStr ''vy'', dict_get np ''vy'' (VFloat 0)),
                     (VStr ''health'', dict_get np ''health'' (VInt 100)),
                     (VStr ''weapon'', dict_get np ''weapon'' VNull),
                     (VStr ''weapon_cooldown'', dict_get np ''weapon_cooldown'' (VFloat 0)),
                     (VStr ''state'', dict_get np ''state'' (VStr ''alive''))])
            \<or> ((\<forall>q\<in>set ops. other_peer pid q) \<and> res = new)))"

section \<open>Concrete inputs\<close>

definition connection_default :: connection where
  \<comment> \<open>the field initialisers of ShardConnection, with the default settings\<close>
  "connection_default =
     \<lparr>ws = None, state = DISCONNECTED, token = [], user_id = [], username = [],
      reconnect_attempts = 0, reconnect_timer = 0, is_reconnecting = False,
      was_authenticated = False, match_reconnect_timer = 0, in_match = False,
      server_host = ''localhost'', server_port = 9877, auto_reconnect = True,
      reconnect_delay = 2, max_reconnect_attempts = 5, messages_sent = 0,
      messages_received = 0, bytes_sent = 0, bytes_received = 0, ping_timer = 0,
      ping_sent_time = 0, current_latency = 0, latency_buffer = []\<rparr>"

definition new_socket :: websocket where
  \<comment> \<open>a socket whose connection has just been initiated\<close>
  "new_socket = \<lparr>ready = STATE_CONNECTING, close_code = - 1, packets = [], sent_text = []\<rparr>"

definition sample_engine :: engine where
  \<comment> \<open>an engine to evaluate the model with: numbers and booleans convert as GDScript
      converts them, the integers 0, 1 and 2 print in decimal, the clock reads 1000 ms, the
      network is silent and every connection can be initiated\<close>
  "sample_engine =
     \<lparr>float_of = (\<lambda>v. case num v of Some r \<Rightarrow> r | None \<Rightarrow> 0),
      bool_of = truthy,
      int_of = (\<lambda>v. case as_int v of Some i \<Rightarrow> i | None \<Rightarrow> 0),
      str_of = (\<lambda>v. case v of
                  VStr s \<Rightarrow> s
                | VInt i \<Rightarrow> (if i = 0 then ''0'' else if i = 1 then ''1''
                            else if i = 2 then ''2'' else ''?'')
                | _ \<Rightarrow> ''?''),
      json_stringify = (\<lambda>d. ''{}''),
      json_parse = (\<lambda>s. None),
      ticks_msec = 1000,
      ws_poll = (\<lambda>w. w),
      ws_connect = (\<lambda>url header. (new_socket, True))\<rparr>"

definition sample_snapshot :: "int \<Rightarrow> dict \<Rightarrow> variant list \<Rightarrow> snapshot" where
  \<comment> \<open>a snapshot received at \<open>time\<close> with the given last-processed ticks and players\<close>
  "sample_snapshot time last_processed ps =
     \<lparr>snap_tick = VInt 0, snap_timestamp = VInt 0, server_time = time,
      last_processed_input = VDict last_processed, players = VArray ps,
      projectiles = VArray [], pickups = VArray []\<rparr>"

section \<open>Buffers and integer division\<close>

lemma pop_front_while_over_drop: "pop_front_while_over n buf = drop (length buf - n) buf"
proof (induction n buf rule: pop_front_while_over.induct)
  case (1 n buf)
  show ?case
  proof (cases "length buf > n")
    case True
    then have "pop_front_while_over n buf = drop (length (tl buf) - n) (tl buf)"
      using 1 by (simp add: pop_front_while_over.simps [of n buf])
    also have "\<dots> = drop (length buf - n) buf"
      using True by (cases buf) (simp_all add: Suc_diff_le)
    finally show ?thesis .
  next
    case False
    then show ?thesis by (simp add: pop_front_while_over.simps [of n buf])
  qed
qed

lemma pop_front_while_le_dropWhile:
  "pop_front_while_le t buf = dropWhile (\<lambda>entry. tick entry \<le> t) buf"
proof (induction t buf rule: pop_front_while_le.induct)
  case (1 t buf)
  show ?case
  proof (cases buf)
    case Nil
    then show ?thesis by (simp add: pop_front_while_le.simps [of t "[]"])
  next
    case (Cons a rest)
    then show ?thesis using 1 by (simp add: pop_front_while_le.simps [of t "a # rest"])
  qed
qed


lemma sdiv_trunc:
  assumes "0 < b"
  shows "a sdiv b = trunc (real_of_int a / real_of_int b)"
proof (cases "0 \<le> a")
  case True
  then have "a sdiv b = a div b" using assms by (simp add: signed_divide_int_def sgn_if)
  moreover have "trunc (real_of_int a / real_of_int b) = a div b"
    using True assms by (simp add: trunc_def floor_divide_of_int_eq)
  ultimately show ?thesis by simp
next
  case False
  then have neg: "a < 0" by simp
  then have "a sdiv b = - ((- a) div b)" using assms by (simp add: signed_divide_int_def sgn_if)
  moreover have "real_of_int a / real_of_int b < 0 \<or> real_of_int a / real_of_int b = 0"
    using neg assms by (simp add: divide_neg_pos)
  then have "trunc (real_of_int a / real_of_int b) = \<lceil>real_of_int a / real_of_int b\<rceil>"
    using neg assms by (auto simp: trunc_def)
  moreover have "\<lceil>real_of_int a / real_of_int b\<rceil> = - \<lfloor>real_of_int (- a) / real_of_int b\<rfloor>"
    by (simp add: ceiling_def)
  moreover have "\<lfloor>real_of_int (- a) / real_of_int b\<rfloor> = (- a) div b"
    by (simp only: floor_divide_of_int_eq)
  ultimately show ?thesis by simp
qed

section \<open>Latency (C9)\<close>

text \<open>
  C9, as stated: the average-latency accessor returns the arithmetic mean of the buffered
  samples. It does not for the samples 1 ms and 2 ms: the accessor returns an integer,
  and the mean is 3/2.
\<close>

theorem average_latency_not_mean:
  "real_of_int (get_average_latency (connection_default\<lparr>latency_buffer := [1, 2]\<rparr>))
     \<noteq> real_of_int (sum_list [1, 2]) / real (length [1 :: int, 2])"
  by (simp add: get_average_latency_def connection_default_def signed_divide_int_def)

text \<open>
  C9, amended: \<open>get_average_latency\<close> returns 0 for an empty ring and otherwise the
  arithmetic mean of the buffered samples truncated towards zero to an integer; a pong
  appends its round-trip time and a ring of at most 5 samples keeps the 5 most recent.
\<close>

theorem average_latency_truncated_mean:
  "(latency_buffer c = [] \<longrightarrow> get_average_latency c = 0)
   \<and> (latency_buffer c \<noteq> [] \<longrightarrow>
        get_average_latency c
          = trunc (real_of_int (sum_list (latency_buffer c)) / real (length (latency_buffer c))))
   \<and> (length (latency_buffer c) \<le> 5 \<longrightarrow>
        latency_buffer (fst (handle_pong e c message))
          = drop (length (latency_buffer c) + 1 - 5)
              (latency_buffer c @ [ticks_msec e - ping_sent_time c]))"
proof (intro conjI impI)
  show "get_average_latency c = 0" if "latency_buffer c = []"
    using that by (simp add: get_average_latency_def)
  show "get_average_latency c
          = trunc (real_of_int (sum_list (latency_buffer c)) / real (length (latency_buffer c)))"
    if "latency_buffer c \<noteq> []"
  proof -
    have "0 < int (length (latency_buffer c))" using that by simp
    from sdiv_trunc [OF this] show ?thesis using that by (simp add: get_average_latency_def)
  qed
  show "latency_buffer (fst (handle_pong e c message))
          = drop (length (latency_buffer c) + 1 - 5)
              (latency_buffer c @ [ticks_msec e - ping_sent_time c])"
    if "length (latency_buffer c) \<le> 5"
  proof (cases "length (latency_buffer c) = 5")
    case True
    then obtain a rest where "latency_buffer c = a # rest" by (cases "latency_buffer c") auto
    then show ?thesis using True by (simp add: handle_pong_def LATENCY_BUFFER_SIZE_def Let_def)
  next
    case False
    then show ?thesis using that by (simp add: handle_pong_def LATENCY_BUFFER_SIZE_def Let_def)
  qed
qed

theorem average_latency_truncated_mean_witness:
  "latency_buffer (connection_default\<lparr>latency_buffer := [10, 20, 30, 40, 51]\<rparr>) \<noteq> []
   \<and> length (latency_buffer (connection_default\<lparr>latency_buffer := [10, 20, 30, 40, 51]\<rparr>)) \<le> 5
   \<and> get_average_latency (connection_default\<lparr>latency_buffer := [10, 20, 30, 40, 51]\<rparr>) = 30
   \<and> latency_buffer (fst (handle_pong sample_engine
         (connection_default\<lparr>latency_buffer := [10, 20, 30, 40, 51], ping_sent_time := 940\<rparr>) []))
       = [20, 30, 40, 51, 60]"
  using average_latency_truncated_mean
    [of "connection_default\<lparr>latency_buffer := [10, 20, 30, 40, 51]\<rparr>"]
    average_latency_truncated_mean
    [of "connection_default\<lparr>latency_buffer := [10, 20, 30, 40, 51], ping_sent_time := 940\<rparr>"
        sample_engine "[]"]
  by (simp add: connection_default_def sample_engine_def trunc_def)

section \<open>Leaving a lobby (C10)\<close>

text \<open>
  C10: \<open>leave_lobby\<close> on an authenticated connection and in a lobby sends the
  leave request, clears the lobby code, the roster and the host peer id within the call
  and emits \<open>lobby_left\<close>; without a connection, when not authenticated, or when not
  in a lobby it changes nothing and sends nothing.
\<close>

theorem leave_lobby_clears_at_once:
  "(is_authenticated c \<and> lobby_code l \<noteq> [] \<longrightarrow>
      leave_lobby e l (Some c)
        = (l\<lparr>lobby_code := [], lobby_players := [], host_peer_id := - 1\<rparr>,
           Some (send_message e c
                   [(VStr ''type'', VStr ''leave_lobby''), (VStr ''timestamp'', VInt (ticks_msec e))]),
           [Sig_lobby_left]))
   \<and> (connection = None \<or> (\<exists>c'. connection = Some c' \<and> \<not> is_authenticated c') \<or> lobby_code l = []
        \<longrightarrow> leave_lobby e l connection = (l, connection, []))"
  by (auto simp: leave_lobby_def clear_state_def MSG_LEAVE_LOBBY_def split: option.splits)

theorem leave_lobby_clears_at_once_witness:
  "is_authenticated (connection_default\<lparr>state := AUTHENTICATED\<rparr>)
   \<and> lobby_code \<lparr>lobby_code = ''AB12'', lobby_players = [(1, [(VStr ''username'', VStr ''ann'')])],
                  lobby_my_peer_id = 1, host_peer_id = 1\<rparr> \<noteq> []
   \<and> fst (leave_lobby sample_engine
        \<lparr>lobby_code = ''AB12'', lobby_players = [(1, [(VStr ''username'', VStr ''ann'')])],
         lobby_my_peer_id = 1, host_peer_id = 1\<rparr>
        (Some (connection_default\<lparr>state := AUTHENTICATED\<rparr>)))
       = \<lparr>lobby_code = [], lobby_players = [], lobby_my_peer_id = 1, host_peer_id = - 1\<rparr>
   \<and> leave_lobby sample_engine
        \<lparr>lobby_code = ''AB12'', lobby_players = [(1, [(VStr ''username'', VStr ''ann'')])],
         lobby_my_peer_id = 1, host_peer_id = 1\<rparr> None
       = (\<lparr>lobby_code = ''AB12'', lobby_players = [(1, [(VStr ''username'', VStr ''ann'')])],
           lobby_my_peer_id = 1, host_peer_id = 1\<rparr>, None, [])"
  using leave_lobby_clears_at_once
    [where c = "connection_default\<lparr>state := AUTHENTICATED\<rparr>"
       and l = "\<lparr>lobby_code = ''AB12'', lobby_players = [(1, [(VStr ''username'', VStr ''ann'')])],
                 lobby_my_peer_id = 1, host_peer_id = 1\<rparr>"
       and e = sample_engine and connection = None]
  by (simp add: is_authenticated_def connection_default_def)

section \<open>Bounded buffers (C5)\<close>

lemma handle_snapshot_buffer:
  "snapshots (fst (handle_snapshot e s m))
     = drop (length (snapshots s) + 1 - 3) (snapshots s @ [make_snapshot e m])"
  by (simp add: handle_snapshot_def Let_def pop_front_while_over_drop SNAPSHOT_BUFFER_SIZE_def)

lemma handle_snapshot_length: "length (snapshots (fst (handle_snapshot e s m))) \<le> 3"
  by (simp add: handle_snapshot_buffer)

lemma handle_snapshot_last:
  "last (snapshots (fst (handle_snapshot e s m))) = make_snapshot e m"
  by (simp add: handle_snapshot_buffer)

lemma send_input_accepted_buffer:
  assumes "is_playing" "is_authenticated c"
  shows "input_buffer (fst (send_input e s (Some c) inp is_playing))
           = drop (length (input_buffer s) + 1 - 60)
               (input_buffer s @ [\<lparr>tick = current_tick s + 1, input = validate_input e inp\<rparr>])"
  using assms
  by (simp add: send_input_def Let_def store_input_def pop_front_while_over_drop
        INPUT_BUFFER_SIZE_def)

lemma send_input_buffer_cases:
  "input_buffer (fst (send_input e s connection inp is_playing)) = input_buffer s
   \<or> input_buffer (fst (send_input e s connection inp is_playing))
        = drop (length (input_buffer s) + 1 - 60)
            (input_buffer s @ [\<lparr>tick = current_tick s + 1, input = validate_input e inp\<rparr>])"
  by (simp add: send_input_def Let_def store_input_def pop_front_while_over_drop
        INPUT_BUFFER_SIZE_def split: option.splits)

lemma send_input_length:
  "length (input_buffer s) \<le> 60 \<Longrightarrow>
     length (input_buffer (fst (send_input e s connection inp is_playing))) \<le> 60"
  using send_input_buffer_cases [of e s connection inp is_playing] by auto

lemma send_inputs_length:
  "length (input_buffer s) \<le> 60 \<Longrightarrow>
     length (input_buffer
       (foldl (\<lambda>s (e, connection, inp, is_playing). fst (send_input e s connection inp is_playing))
          s calls)) \<le> 60"
proof (induction calls arbitrary: s)
  case Nil
  then show ?case by simp
next
  case (Cons call calls)
  obtain e connection inp is_playing where call: "call = (e, connection, inp, is_playing)"
    by (cases call) auto
  show ?case using Cons.IH [OF send_input_length [OF Cons.prems]] call by simp
qed

lemma handle_snapshots_length:
  "length (snapshots s) \<le> 3 \<Longrightarrow>
     length (snapshots (foldl (\<lambda>s (e, m). fst (handle_snapshot e s m)) s appends)) \<le> 3"
proof (induction appends rule: rev_induct)
  case Nil
  then show ?case by simp
next
  case (snoc a appends)
  then show ?case by (cases a) (simp add: handle_snapshot_length)
qed

lemma handle_snapshots_last:
  "appends \<noteq> [] \<Longrightarrow>
     last (snapshots (foldl (\<lambda>s (e, m). fst (handle_snapshot e s m)) s appends))
       = make_snapshot (fst (last appends)) (snd (last appends))"
proof (cases appends rule: rev_cases)
  case Nil
  assume "appends \<noteq> []"
  with Nil show ?thesis by simp
next
  case (snoc rest a)
  then show ?thesis by (cases a) (simp add: handle_snapshot_last)
qed

text \<open>
  C5: after any sequence of \<open>handle_snapshot\<close> calls on a fresh ShardState the
  snapshot buffer holds at most 3 entries and its last entry is the snapshot appended
  last; every append keeps the newest 3 of the old entries followed by the new one.
  After any sequence of \<open>send_input\<close> calls on a fresh ShardInput the input buffer
  holds at most 60 entries, and every accepted input keeps the newest 60 of the old
  entries followed by the new one, so the entries dropped are the oldest. The queries
  \<open>get_inputs_after_tick\<close>, \<open>get_input_at_tick\<close> and \<open>get_buffer_size\<close> return
  values and leave the buffer as it is.
\<close>

theorem buffers_bounded_fifo:
  "length (snapshots (foldl (\<lambda>s (e, m). fst (handle_snapshot e s m)) shard_state_init appends)) \<le> 3
   \<and> (appends \<noteq> [] \<longrightarrow>
        last (snapshots (foldl (\<lambda>s (e, m). fst (handle_snapshot e s m)) shard_state_init appends))
          = make_snapshot (fst (last appends)) (snd (last appends)))
   \<and> snapshots (fst (handle_snapshot e st m))
        = drop (length (snapshots st) + 1 - 3) (snapshots st @ [make_snapshot e m])
   \<and> length (input_buffer
        (foldl (\<lambda>s (e, connection, inp, is_playing).
                  fst (send_input e s connection inp is_playing)) shard_input_init calls)) \<le> 60
   \<and> (is_playing \<and> is_authenticated c \<longrightarrow>
        input_buffer (fst (send_input e s (Some c) inp is_playing))
          = drop (length (input_buffer s) + 1 - 60)
              (input_buffer s @ [\<lparr>tick = current_tick s + 1, input = validate_input e inp\<rparr>]))"
proof (intro conjI impI)
  show "length (snapshots (foldl (\<lambda>s (e, m). fst (handle_snapshot e s m)) shard_state_init appends)) \<le> 3"
    by (rule handle_snapshots_length) (simp add: shard_state_init_def)
  show "last (snapshots (foldl (\<lambda>s (e, m). fst (handle_snapshot e s m)) shard_state_init appends))
          = make_snapshot (fst (last appends)) (snd (last appends))" if "appends \<noteq> []"
    using that by (rule handle_snapshots_last)
  show "snapshots (fst (handle_snapshot e st m))
        = drop (length (snapshots st) + 1 - 3) (snapshots st @ [make_snapshot e m])"
    by (rule handle_snapshot_buffer)
  show "length (input_buffer
        (foldl (\<lambda>s (e, connection, inp, is_playing).
                  fst (send_input e s connection inp is_playing)) shard_input_init calls)) \<le> 60"
    by (rule send_inputs_length) (simp add: shard_input_init_def)
  show "input_buffer (fst (send_input e s (Some c) inp is_playing))
          = drop (length (input_buffer s) + 1 - 60)
              (input_buffer s @ [\<lparr>tick = current_tick s + 1, input = validate_input e inp\<rparr>])"
    if "is_playing \<and> is_authenticated c"
    using that by (simp add: send_input_accepted_buffer)
qed

theorem buffers_bounded_fifo_witness:
  "[(sample_engine, [(VStr ''tick'', VInt 1)]), (sample_engine, [(VStr ''tick'', VInt 2)]),
    (sample_engine, [(VStr ''tick'', VInt 3)]), (sample_engine, [(VStr ''tick'', VInt 4)])] \<noteq> []
   \<and> map snap_tick (snapshots (foldl (\<lambda>s (e, m). fst (handle_snapshot e s m)) shard_state_init
        [(sample_engine, [(VStr ''tick'', VInt 1)]), (sample_engine, [(VStr ''tick'', VInt 2)]),
         (sample_engine, [(VStr ''tick'', VInt 3)]), (sample_engine, [(VStr ''tick'', VInt 4)])]))
       = [VInt 2, VInt 3, VInt 4]
   \<and> last (snapshots (foldl (\<lambda>s (e, m). fst (handle_snapshot e s m)) shard_state_init
        [(sample_engine, [(VStr ''tick'', VInt 1)]), (sample_engine, [(VStr ''tick'', VInt 2)]),
         (sample_engine, [(VStr ''tick'', VInt 3)]), (sample_engine, [(VStr ''tick'', VInt 4)])]))
       = make_snapshot sample_engine [(VStr ''tick'', VInt 4)]
   \<and> (True \<and> is_authenticated (connection_default\<lparr>state := AUTHENTICATED\<rparr>))
   \<and> input_buffer (fst (send_input sample_engine shard_input_init
        (Some (connection_default\<lparr>state := AUTHENTICATED\<rparr>)) [] True))
       = [\<lparr>tick = 1, input = validate_input sample_engine []\<rparr>]"
  using buffers_bounded_fifo
    [where appends = "[(sample_engine, [(VStr ''tick'', VInt 1)]), (sample_engine, [(VStr ''tick'', VInt 2)]),
         (sample_engine, [(VStr ''tick'', VInt 3)]), (sample_engine, [(VStr ''tick'', VInt 4)])]"
       and is_playing = True and c = "connection_default\<lparr>state := AUTHENTICATED\<rparr>"
       and e = sample_engine and s = shard_input_init and inp = "[]"]
  by (simp add: handle_snapshot_def make_snapshot_def pop_front_while_over_drop Let_def
        SNAPSHOT_BUFFER_SIZE_def shard_state_init_def shard_input_init_def dict_get_def
        is_authenticated_def connection_default_def)

section \<open>Scores (C8)\<close>

lemma map_upd_add: "m(k \<mapsto> v) ++ n = m ++ ([k \<mapsto> v] ++ n)"
  by (rule ext) (simp add: map_add_def split: option.splits)

lemma parse_scores_in_merge:
  "map_of (parse_scores_in e sc xs) = map_of sc ++ map_of (rev (score_entries e xs))"
proof (induction xs arbitrary: sc)
  case Nil
  then show ?case by (simp add: score_entries_def)
next
  case (Cons s xs)
  show ?case
  proof (cases "score_entries_of e s")
    case None
    then have "parse_scores_in e sc (s # xs) = parse_scores_in e sc xs"
      by (cases s) (simp_all add: score_entries_of_def split: if_splits)
    moreover have "score_entries e (s # xs) = score_entries e xs"
      using None by (simp add: score_entries_def)
    ultimately show ?thesis using Cons.IH by simp
  next
    case (Some kv)
    obtain k v where kv: "kv = (k, v)" by (cases kv)
    have step: "parse_scores_in e sc (s # xs) = parse_scores_in e (AList.update k v sc) xs"
      using Some kv by (cases s) (simp_all add: score_entries_of_def Let_def split: if_splits)
    have ents: "score_entries e (s # xs) = (k, v) # score_entries e xs"
      using Some kv by (simp add: score_entries_def)
    have "map_of (parse_scores_in e sc (s # xs))
            = (map_of sc)(k \<mapsto> v) ++ map_of (rev (score_entries e xs))"
      by (simp only: step Cons.IH update_conv')
    also have "\<dots> = map_of sc ++ ([k \<mapsto> v] ++ map_of (rev (score_entries e xs)))"
      by (rule map_upd_add)
    also have "[k \<mapsto> v] ++ map_of (rev (score_entries e xs))
                 = map_of (rev (score_entries e (s # xs)))"
      by (simp add: ents)
    finally show ?thesis .
  qed
qed

lemma parse_scores_fields:
  "match_state (parse_scores e m v) = match_state m
   \<and> current_round (parse_scores e m v) = current_round m
   \<and> spawn_positions (parse_scores e m v) = spawn_positions m
   \<and> weapon_spawns (parse_scores e m v) = weapon_spawns m
   \<and> final_winner_peer_id (parse_scores e m v) = final_winner_peer_id m
   \<and> final_winner_username (parse_scores e m v) = final_winner_username m
   \<and> final_scores (parse_scores e m v) = final_scores m"
  by (cases v) (simp_all add: parse_scores_def)

text \<open>
  C8: a round-over message whose \<open>scores\<close> field is an Array merges the entries of the
  payload into the score map by peer id (a later entry for the same peer wins, and the
  score of a peer the payload does not name is kept); a match-over message whose
  \<open>final_scores\<close> field is an Array replaces the score map by the entries of the
  payload; \<open>reset\<close> returns to LOBBY and clears the round, the scores and the spawn
  data; \<open>return_to_lobby\<close> returns to LOBBY and keeps the scores.
\<close>

theorem scores_merge_then_replace:
  "(dict_has message ''scores'' \<and> dict_get message ''scores'' VNull = VArray xs \<longrightarrow>
      map_of (scores (fst (handle_round_over e m message)))
        = map_of (scores m) ++ map_of (rev (score_entries e xs))
      \<and> (\<forall>peer. peer \<notin> fst ` set (score_entries e xs) \<longrightarrow>
            map_of (scores (fst (handle_round_over e m message))) peer = map_of (scores m) peer))
   \<and> (dict_has message ''final_scores'' \<and> dict_get message ''final_scores'' VNull = VArray ys \<longrightarrow>
        map_of (scores (fst (handle_match_over e m message))) = map_of (rev (score_entries e ys)))
   \<and> match_state (match_reset m) = LOBBY \<and> current_round (match_reset m) = 0
   \<and> scores (match_reset m) = [] \<and> spawn_positions (match_reset m) = []
   \<and> weapon_spawns (match_reset m) = []
   \<and> match_state (return_to_lobby m) = LOBBY \<and> scores (return_to_lobby m) = scores m"
proof (intro conjI impI)
  assume a: "dict_has message ''scores'' \<and> dict_get message ''scores'' VNull = VArray xs"
  then show merged: "map_of (scores (fst (handle_round_over e m message)))
        = map_of (scores m) ++ map_of (rev (score_entries e xs))"
    by (simp add: handle_round_over_def Let_def parse_scores_def parse_scores_in_merge)
  show "\<forall>peer. peer \<notin> fst ` set (score_entries e xs) \<longrightarrow>
            map_of (scores (fst (handle_round_over e m message))) peer = map_of (scores m) peer"
  proof (intro allI impI)
    fix peer assume "peer \<notin> fst ` set (score_entries e xs)"
    then have "map_of (rev (score_entries e xs)) peer = None"
      by (simp add: map_of_eq_None_iff)
    then show "map_of (scores (fst (handle_round_over e m message))) peer = map_of (scores m) peer"
      by (simp add: merged map_add_def)
  qed
next
  assume "dict_has message ''final_scores'' \<and> dict_get message ''final_scores'' VNull = VArray ys"
  then show "map_of (scores (fst (handle_match_over e m message))) = map_of (rev (score_entries e ys))"
    by (simp add: handle_match_over_def Let_def parse_final_scores_def parse_scores_def
          parse_scores_in_merge)
qed (simp_all add: match_reset_def return_to_lobby_def)

theorem scores_merge_then_replace_witness:
  "(dict_has [(VStr ''scores'', VArray [VDict [(VStr ''peer_id'', VInt 2), (VStr ''rounds_won'', VInt 1)]])]
      ''scores''
    \<and> dict_get [(VStr ''scores'', VArray [VDict [(VStr ''peer_id'', VInt 2), (VStr ''rounds_won'', VInt 1)]])]
        ''scores'' VNull
       = VArray [VDict [(VStr ''peer_id'', VInt 2), (VStr ''rounds_won'', VInt 1)]])
   \<and> scores (fst (handle_round_over sample_engine (shard_match_init\<lparr>scores := [(1, 1), (2, 0)]\<rparr>)
        [(VStr ''scores'', VArray [VDict [(VStr ''peer_id'', VInt 2), (VStr ''rounds_won'', VInt 1)]])]))
       = [(1, 1), (2, 1)]
   \<and> (dict_has [(VStr ''final_scores'', VArray [VDict [(VStr ''peer_id'', VInt 3), (VStr ''rounds_won'', VInt 2)]])]
      ''final_scores''
    \<and> dict_get [(VStr ''final_scores'', VArray [VDict [(VStr ''peer_id'', VInt 3), (VStr ''rounds_won'', VInt 2)]])]
        ''final_scores'' VNull
       = VArray [VDict [(VStr ''peer_id'', VInt 3), (VStr ''rounds_won'', VInt 2)]])
   \<and> scores (fst (handle_match_over sample_engine (shard_match_init\<lparr>scores := [(1, 1), (2, 0)]\<rparr>)
        [(VStr ''final_scores'', VArray [VDict [(VStr ''peer_id'', VInt 3), (VStr ''rounds_won'', VInt 2)]])]))
       = [(3, 2)]
   \<and> (1 :: int) \<notin> fst ` set (score_entries sample_engine
          [VDict [(VStr ''peer_id'', VInt 2), (VStr ''rounds_won'', VInt 1)]])"
  using scores_merge_then_replace
    [where message = "[(VStr ''scores'', VArray [VDict [(VStr ''peer_id'', VInt 2), (VStr ''rounds_won'', VInt 1)]])]"
       and xs = "[VDict [(VStr ''peer_id'', VInt 2), (VStr ''rounds_won'', VInt 1)]]"
       and e = sample_engine and m = "shard_match_init\<lparr>scores := [(1, 1), (2, 0)]\<rparr>"]
    scores_merge_then_replace
    [where message = "[(VStr ''final_scores'', VArray [VDict [(VStr ''peer_id'', VInt 3), (VStr ''rounds_won'', VInt 2)]])]"
       and ys = "[VDict [(VStr ''peer_id'', VInt 3), (VStr ''rounds_won'', VInt 2)]]"
       and e = sample_engine and m = "shard_match_init\<lparr>scores := [(1, 1), (2, 0)]\<rparr>"]
  by (simp add: handle_round_over_def handle_match_over_def parse_scores_def parse_final_scores_def
        dict_has_def dict_get_def sample_engine_def shard_match_init_def Let_def
        score_entries_def score_entries_of_def)

section \<open>Closure with the invalid-session code (C4)\<close>

text \<open>
  C4: after a closure with the invalid-session close code no reconnection attempt is to
  follow. The handler \<open>_on_disconnected\<close> returns before its reconnection branch, but
  it leaves \<open>_is_reconnecting\<close> as it was. Three calls of \<open>poll\<close> on an
  authenticated connection show what follows when the closure arrives during a
  reconnection. In the first the socket has dropped (close code 1006): reconnection
  starts with a delay of 2 s. In the second, 2 s later, the timer has run out: the first
  attempt opens a new socket. In the third the server has closed that socket with the
  invalid-session code 4001: \<open>poll\<close> emits \<open>authentication_failed\<close> and, still
  reconnecting with the timer run out, goes on to the second attempt with the same token,
  so that the connection is CONNECTING again with the attempt counter at 2.
\<close>

theorem invalid_session_while_reconnecting_retries:
  "poll (sample_engine\<lparr>ws_poll := (\<lambda>w. w\<lparr>ready := STATE_CLOSED, close_code := 4001\<rparr>)\<rparr>)
     (fst (poll sample_engine
        (fst (poll (sample_engine\<lparr>ws_poll := (\<lambda>w. w\<lparr>ready := STATE_CLOSED, close_code := 1006\<rparr>)\<rparr>)
           (connection_default\<lparr>ws := Some (new_socket\<lparr>ready := STATE_OPEN\<rparr>),
                               state := AUTHENTICATED, token := ''expired''\<rparr>)
           (1 / 60)))
        2))
     (1 / 60)
   = (connection_default
        \<lparr>ws := Some new_socket, state := CONNECTING, token := ''expired'',
         is_reconnecting := True, reconnect_attempts := 2, was_authenticated := True,
         reconnect_timer := - (1 / 30)\<rparr>,
      [Sig_authentication_failed ''Invalid or expired session''])"
  by (simp add: poll_def poll_socket_def poll_reconnect_def poll_ping_def poll_match_timeout_def
        on_disconnected_def attempt_reconnect_def start_reconnection_def schedule_reconnect_def
        pow2_def clear_user_info_def sample_engine_def new_socket_def
        connection_default_def CLOSE_INVALID_SESSION_def CLOSE_RATE_LIMITED_def
        CLOSE_MESSAGE_TOO_LARGE_def Let_def MATCH_RECONNECT_TIMEOUT_def)

section \<open>Finding a player\<close>

text \<open>
  The loop \<open>find_player_in\<close> returns the first listed player state of the peer, and
  none exactly when every listed player state belongs to another peer.
\<close>

lemma find_player_in_first:
  "first_with_peer ps pid player \<Longrightarrow> find_player_in ps pid = Ok (Some player)"
proof -
  assume "first_with_peer ps pid player"
  then obtain before after where ps: "ps = before @ VDict player # after"
    and others: "\<forall>q\<in>set before. other_peer pid q"
    and mine: "eq_int (dict_get player ''peer_id'' (VInt (- 1))) pid"
    unfolding first_with_peer_def by blast
  from others have "find_player_in (before @ VDict player # after) pid = Ok (Some player)"
  proof (induction before)
    case Nil
    then show ?case using mine by simp
  next
    case (Cons q before)
    then obtain d where "q = VDict d" "\<not> eq_int (dict_get d ''peer_id'' (VInt (- 1))) pid"
      by (cases q) (auto simp: other_peer_def)
    then show ?case using Cons by simp
  qed
  then show ?thesis by (simp add: ps)
qed

lemma find_player_in_none:
  "\<forall>q\<in>set ps. other_peer pid q \<Longrightarrow> find_player_in ps pid = Ok None"
proof (induction ps)
  case Nil
  then show ?case by simp
next
  case (Cons q ps)
  then obtain d where "q = VDict d" "\<not> eq_int (dict_get d ''peer_id'' (VInt (- 1))) pid"
    by (cases q) (auto simp: other_peer_def)
  then show ?case using Cons by simp
qed

lemma find_player_in_cases:
  "\<forall>p\<in>set ps. player_ok p \<Longrightarrow>
     (\<exists>player. first_with_peer ps pid player \<and> VDict player \<in> set ps)
     \<or> (\<forall>q\<in>set ps. other_peer pid q)"
proof (induction ps)
  case Nil
  then show ?case by simp
next
  case (Cons q ps)
  then obtain d where q: "q = VDict d" by (cases q) (auto simp: player_ok_def)
  show ?case
  proof (cases "eq_int (dict_get d ''peer_id'' (VInt (- 1))) pid")
    case True
    then have "first_with_peer (q # ps) pid d"
      unfolding first_with_peer_def q by (intro exI [of _ "[]"] exI [of _ ps]) simp
    then show ?thesis using q by auto
  next
    case False
    then have oq: "other_peer pid q" by (simp add: q other_peer_def)
    from Cons consider (found) player where "first_with_peer ps pid player" "VDict player \<in> set ps"
      | (none) "\<forall>q\<in>set ps. other_peer pid q" by auto
    then show ?thesis
    proof cases
      case found
      then obtain before after where "ps = before @ VDict player # after"
        "\<forall>q\<in>set before. other_peer pid q" "eq_int (dict_get player ''peer_id'' (VInt (- 1))) pid"
        unfolding first_with_peer_def by blast
      then have "first_with_peer (q # ps) pid player"
        unfolding first_with_peer_def using oq
        by (intro exI [of _ "q # before"] exI [of _ after]) simp
      then show ?thesis using found(2) by auto
    next
      case none
      then show ?thesis using oq by simp
    qed
  qed
qed

section \<open>Incomplete match messages (C7)\<close>

text \<open>
  C7, as stated: a match-over message missing its fields is ignored and leaves the state
  enum unchanged. It does not: \<open>handle_message\<close> passes a match-over message that
  carries nothing but its type to \<open>_handle_match_over\<close>, which moves a fresh ShardMatch
  from LOBBY to MATCH_OVER.
\<close>

theorem match_over_without_fields_mutates:
  "match_state (fst (fst (match_handle_message sample_engine shard_match_init
       [(VStr ''type'', VStr ''match_over'')])))
     \<noteq> match_state shard_match_init"
  by (simp add: match_handle_message_def handle_match_over_def shard_match_init_def dict_has_def
        dict_get_def Let_def MSG_COUNTDOWN_def MSG_ROUND_START_def MSG_ROUND_OVER_def
        MSG_MATCH_OVER_def)

text \<open>
  C7, amended: a countdown message without \<open>seconds\<close> and a round-start message
  without \<open>round\<close> are claimed by \<open>handle_message\<close>, ignored, and change nothing.
  A round-over and a match-over message have no required field and are never ignored.
  A round-over message sets the state to ROUND_OVER and changes nothing else but the score
  map, which is merged with the \<open>scores\<close> field when that is present and an Array and
  left as it is otherwise; its event carries the winner id, -1 when the field is missing.
  A match-over message sets the state to MATCH_OVER and each final field from the field
  it carries or to its default when the field is missing (winner id -1, winner name
  empty, final score list empty); the score map is replaced when \<open>final_scores\<close> is
  present and an Array and left as it is otherwise; round and spawn lists are unchanged.
\<close>

theorem incomplete_match_messages:
  "(dict_get message ''type'' VNull = VStr ''countdown'' \<and> dict_has message ''type''
      \<and> \<not> dict_has message ''seconds''
      \<longrightarrow> match_handle_message e m message = ((m, []), True))
   \<and> (dict_get message ''type'' VNull = VStr ''round_start'' \<and> dict_has message ''type''
      \<and> \<not> dict_has message ''round''
      \<longrightarrow> match_handle_message e m message = ((m, []), True))
   \<and> (\<not> dict_has message ''seconds'' \<longrightarrow> handle_countdown e m message = (m, []))
   \<and> (\<not> dict_has message ''round'' \<longrightarrow> handle_round_start e m message = (m, []))
   \<and> handle_round_over e m message
       = (m\<lparr>match_state := ROUND_OVER,
            scores := (if dict_has message ''scores''
                       then (case dict_get message ''scores'' VNull of
                               VArray xs \<Rightarrow> parse_scores_in e (scores m) xs
                             | _ \<Rightarrow> scores m)
                       else scores m)\<rparr>,
          [Sig_round_ended
             (if dict_has message ''winner_peer_id''
              then int_of e (dict_get message ''winner_peer_id'' VNull) else - 1)
             (if dict_has message ''scores''
              then (case dict_get message ''scores'' VNull of
                      VArray xs \<Rightarrow> parse_scores_in e (scores m) xs
                    | _ \<Rightarrow> scores m)
              else scores m)])
   \<and> fst (handle_match_over e m message)
       = m\<lparr>match_state := MATCH_OVER,
           final_winner_peer_id :=
             (if dict_has message ''winner_peer_id''
              then int_of e (dict_get message ''winner_peer_id'' VNull) else - 1),
           final_winner_username :=
             (if dict_has message ''winner_username''
              then str_of e (dict_get message ''winner_username'' VNull) else []),
           final_scores :=
             (if dict_has message ''final_scores''
              then (case dict_get message ''final_scores'' VNull of VArray xs \<Rightarrow> xs | _ \<Rightarrow> [])
              else []),
           scores :=
             (if dict_has message ''final_scores''
              then (case dict_get message ''final_scores'' VNull of
                      VArray xs \<Rightarrow> parse_scores_in e [] xs
                    | _ \<Rightarrow> scores m)
              else scores m)\<rparr>
   \<and> snd (handle_match_over e m message)
       = [Sig_match_ended
            (if dict_has message ''winner_peer_id''
             then int_of e (dict_get message ''winner_peer_id'' VNull) else - 1)
            (if dict_has message ''winner_username''
             then str_of e (dict_get message ''winner_username'' VNull) else [])
            (if dict_has message ''final_scores''
             then (case dict_get message ''final_scores'' VNull of VArray xs \<Rightarrow> xs | _ \<Rightarrow> [])
             else [])]
   \<and> (dict_get message ''type'' VNull = VStr ''round_over'' \<and> dict_has message ''type''
      \<longrightarrow> match_handle_message e m message = (handle_round_over e m message, True))
   \<and> (dict_get message ''type'' VNull = VStr ''match_over'' \<and> dict_has message ''type''
      \<longrightarrow> match_handle_message e m message = (handle_match_over e m message, True))"
proof (intro conjI impI)
  show "handle_round_over e m message
       = (m\<lparr>match_state := ROUND_OVER,
            scores := (if dict_has message ''scores''
                       then (case dict_get message ''scores'' VNull of
                               VArray xs \<Rightarrow> parse_scores_in e (scores m) xs
                             | _ \<Rightarrow> scores m)
                       else scores m)\<rparr>,
          [Sig_round_ended
             (if dict_has message ''winner_peer_id''
              then int_of e (dict_get message ''winner_peer_id'' VNull) else - 1)
             (if dict_has message ''scores''
              then (case dict_get message ''scores'' VNull of
                      VArray xs \<Rightarrow> parse_scores_in e (scores m) xs
                    | _ \<Rightarrow> scores m)
              else scores m)])"
    by (cases m) (simp add: handle_round_over_def Let_def parse_scores_def split: variant.splits)
  show "fst (handle_match_over e m message)
       = m\<lparr>match_state := MATCH_OVER,
           final_winner_peer_id :=
             (if dict_has message ''winner_peer_id''
              then int_of e (dict_get message ''winner_peer_id'' VNull) else - 1),
           final_winner_username :=
             (if dict_has message ''winner_username''
              then str_of e (dict_get message ''winner_username'' VNull) else []),
           final_scores :=
             (if dict_has message ''final_scores''
              then (case dict_get message ''final_scores'' VNull of VArray xs \<Rightarrow> xs | _ \<Rightarrow> [])
              else []),
           scores :=
             (if dict_has message ''final_scores''
              then (case dict_get message ''final_scores'' VNull of
                      VArray xs \<Rightarrow> parse_scores_in e [] xs
                    | _ \<Rightarrow> scores m)
              else scores m)\<rparr>"
    by (cases m)
       (simp add: handle_match_over_def Let_def parse_final_scores_def parse_scores_def
          split: variant.splits)
  show "snd (handle_match_over e m message)
       = [Sig_match_ended
            (if dict_has message ''winner_peer_id''
             then int_of e (dict_get message ''winner_peer_id'' VNull) else - 1)
            (if dict_has message ''winner_username''
             then str_of e (dict_get message ''winner_username'' VNull) else [])
            (if dict_has message ''final_scores''
             then (case dict_get message ''final_scores'' VNull of VArray xs \<Rightarrow> xs | _ \<Rightarrow> [])
             else [])]"
    by (cases m)
       (simp add: handle_match_over_def Let_def parse_final_scores_def parse_scores_def
          split: variant.splits)
qed (simp_all add: match_handle_message_def handle_countdown_def handle_round_start_def Let_def
       MSG_COUNTDOWN_def MSG_ROUND_START_def MSG_ROUND_OVER_def MSG_MATCH_OVER_def)

theorem incomplete_match_messages_witness:
  "dict_get [(VStr ''type'', VStr ''countdown'')] ''type'' VNull = VStr ''countdown''
   \<and> dict_has [(VStr ''type'', VStr ''countdown'')] ''type''
   \<and> \<not> dict_has [(VStr ''type'', VStr ''countdown'')] ''seconds''
   \<and> match_handle_message sample_engine (shard_match_init\<lparr>scores := [(1, 1)]\<rparr>)
        [(VStr ''type'', VStr ''countdown'')]
       = ((shard_match_init\<lparr>scores := [(1, 1)]\<rparr>, []), True)
   \<and> dict_get [(VStr ''type'', VStr ''round_start'')] ''type'' VNull = VStr ''round_start''
   \<and> \<not> dict_has [(VStr ''type'', VStr ''round_start'')] ''round''
   \<and> match_handle_message sample_engine (shard_match_init\<lparr>scores := [(1, 1)]\<rparr>)
        [(VStr ''type'', VStr ''round_start'')]
       = ((shard_match_init\<lparr>scores := [(1, 1)]\<rparr>, []), True)
   \<and> handle_countdown sample_engine (shard_match_init\<lparr>scores := [(1, 1)]\<rparr>)
        [(VStr ''type'', VStr ''round_start'')]
       = (shard_match_init\<lparr>scores := [(1, 1)]\<rparr>, [])
   \<and> handle_round_start sample_engine (shard_match_init\<lparr>scores := [(1, 1)]\<rparr>)
        [(VStr ''type'', VStr ''countdown'')]
       = (shard_match_init\<lparr>scores := [(1, 1)]\<rparr>, [])
   \<and> dict_get [(VStr ''type'', VStr ''round_over''), (VStr ''winner_peer_id'', VFloat 2)] ''type'' VNull
       = VStr ''round_over''
   \<and> match_handle_message sample_engine (shard_match_init\<lparr>scores := [(1, 1)]\<rparr>)
        [(VStr ''type'', VStr ''round_over''), (VStr ''winner_peer_id'', VFloat 2)]
       = ((shard_match_init\<lparr>scores := [(1, 1)], match_state := ROUND_OVER\<rparr>,
           [Sig_round_ended 2 [(1, 1)]]), True)
   \<and> dict_get [(VStr ''type'', VStr ''match_over''), (VStr ''winner_peer_id'', VFloat 2)] ''type'' VNull
       = VStr ''match_over''
   \<and> match_handle_message sample_engine (shard_match_init\<lparr>scores := [(1, 1)]\<rparr>)
        [(VStr ''type'', VStr ''match_over''), (VStr ''winner_peer_id'', VFloat 2)]
       = ((shard_match_init\<lparr>scores := [(1, 1)], match_state := MATCH_OVER,
                              final_winner_peer_id := 2\<rparr>,
           [Sig_match_ended 2 [] []]), True)"
  using incomplete_match_messages
    [where message = "[(VStr ''type'', VStr ''countdown'')]" and e = sample_engine
       and m = "shard_match_init\<lparr>scores := [(1, 1)]\<rparr>"]
    incomplete_match_messages
    [where message = "[(VStr ''type'', VStr ''round_start'')]" and e = sample_engine
       and m = "shard_match_init\<lparr>scores := [(1, 1)]\<rparr>"]
    incomplete_match_messages
    [where message = "[(VStr ''type'', VStr ''round_over''), (VStr ''winner_peer_id'', VFloat 2)]"
       and e = sample_engine and m = "shard_match_init\<lparr>scores := [(1, 1)]\<rparr>"]
    incomplete_match_messages
    [where message = "[(VStr ''type'', VStr ''match_over''), (VStr ''winner_peer_id'', VFloat 2)]"
       and e = sample_engine and m = "shard_match_init\<lparr>scores := [(1, 1)]\<rparr>"]
  by (simp add: dict_has_def dict_get_def shard_match_init_def sample_engine_def trunc_def
        handle_countdown_def handle_round_start_def handle_round_over_def handle_match_over_def
        match_handle_message_def Let_def MSG_COUNTDOWN_def MSG_ROUND_START_def MSG_ROUND_OVER_def
        MSG_MATCH_OVER_def)

section \<open>Reconnection backoff (C2)\<close>

text \<open>
  What holds of the reconnection code: starting a reconnection schedules the delay
  \<open>min (reconnect_delay * 2 ^ 0) 30\<close>; an attempt whose \<open>connect_to_url\<close> is refused
  at once takes the counter to \<open>n + 1\<close> and schedules \<open>min (reconnect_delay * 2 ^ (n + 1)) 30\<close>;
  an attempt that takes the counter above the maximum leaves reconnecting mode and emits
  \<open>reconnection_failed\<close> once, after which neither a further attempt nor the timer
  blocks of \<open>poll\<close> emit anything.
\<close>

lemma pow2_nat: "0 \<le> n \<Longrightarrow> pow2 n = 2 ^ nat n"
  by (simp add: pow2_def)

lemma start_reconnection_delay:
  "token c \<noteq> [] \<Longrightarrow>
     start_reconnection c
       = (c\<lparr>is_reconnecting := True, reconnect_attempts := 0, match_reconnect_timer := 0,
            reconnect_timer := min (reconnect_delay c * 2 ^ 0) 30\<rparr>, [])"
  by (simp add: start_reconnection_def schedule_reconnect_def pow2_def)

lemma attempt_reconnect_failed_delay:
  assumes "is_reconnecting c" "0 \<le> reconnect_attempts c"
    and "reconnect_attempts c + 1 \<le> max_reconnect_attempts c"
    and "\<not> (in_match c \<and> match_reconnect_timer c \<ge> 60)"
    and "\<not> snd (ws_connect e (server_url e c) (''Authorization: Bearer '' @ token c))"
  shows "state (fst (attempt_reconnect e c)) = DISCONNECTED
         \<and> reconnect_attempts (fst (attempt_reconnect e c)) = reconnect_attempts c + 1
         \<and> reconnect_timer (fst (attempt_reconnect e c))
             = min (reconnect_delay c * 2 ^ nat (reconnect_attempts c + 1)) 30"
proof -
  obtain w where w: "ws_connect e (server_url e c) (''Authorization: Bearer '' @ token c) = (w, False)"
    using assms(5)
    by (cases "ws_connect e (server_url e c) (''Authorization: Bearer '' @ token c)") auto
  have url: "server_url e (c\<lparr>reconnect_attempts := reconnect_attempts c + 1\<rparr>) = server_url e c"
    by (simp add: server_url_def)
  show ?thesis
    using assms(1-4) w
    by (auto simp: attempt_reconnect_def Let_def schedule_reconnect_def pow2_nat url
          MATCH_RECONNECT_TIMEOUT_def)
qed

lemma attempt_reconnect_abandons_once:
  assumes "is_reconnecting c" "reconnect_attempts c + 1 > max_reconnect_attempts c"
  shows "attempt_reconnect e c
          = (c\<lparr>reconnect_attempts := reconnect_attempts c + 1, is_reconnecting := False\<rparr>,
             [Sig_reconnection_failed])
        \<and> attempt_reconnect e' (fst (attempt_reconnect e c)) = (fst (attempt_reconnect e c), [])
        \<and> poll_reconnect e' (fst (attempt_reconnect e c)) delta = (fst (attempt_reconnect e c), [])
        \<and> poll_match_timeout (fst (attempt_reconnect e c)) delta = (fst (attempt_reconnect e c), [])"
  using assms
  by (simp add: Let_def attempt_reconnect_def poll_reconnect_def poll_match_timeout_def)

text \<open>
  C2: every reconnection attempt is to be preceded by the backoff delay
  \<open>min (reconnect_delay * 2 ^ n) 30\<close>. It is not when an attempt fails after
  \<open>connect_to_url\<close> has returned OK, which is how an unreachable server shows. Three
  calls of \<open>poll\<close> on an authenticated connection with the default settings: in the
  first the socket has dropped and reconnection starts with a delay of 2 s; in the second,
  2 s later, the first attempt opens a new socket; in the third that socket has closed:
  \<open>_on_disconnected\<close> emits \<open>disconnected\<close> and schedules nothing, the timer is
  still run out, and the same \<open>poll\<close> call makes the second attempt at once instead
  of 4 s later. The second equation is the same second call with \<open>connect_to_url\<close>
  refused at once: there the delay of 4 s is scheduled.
\<close>

theorem reconnect_retries_without_backoff:
  "poll (sample_engine\<lparr>ws_poll := (\<lambda>w. w\<lparr>ready := STATE_CLOSED, close_code := 1006\<rparr>)\<rparr>)
     (fst (poll sample_engine
        (fst (poll (sample_engine\<lparr>ws_poll := (\<lambda>w. w\<lparr>ready := STATE_CLOSED, close_code := 1006\<rparr>)\<rparr>)
           (connection_default\<lparr>ws := Some (new_socket\<lparr>ready := STATE_OPEN\<rparr>),
                               state := AUTHENTICATED, token := ''token''\<rparr>)
           (1 / 60)))
        2))
     (1 / 60)
   = (connection_default
        \<lparr>ws := Some new_socket, state := CONNECTING, token := ''token'',
         is_reconnecting := True, reconnect_attempts := 2, was_authenticated := True,
         reconnect_timer := - (1 / 30)\<rparr>,
      [Sig_disconnected ''Connection closed''])
   \<and> poll (sample_engine\<lparr>ws_connect := (\<lambda>url header. (new_socket, False))\<rparr>)
        (fst (poll (sample_engine\<lparr>ws_poll := (\<lambda>w. w\<lparr>ready := STATE_CLOSED, close_code := 1006\<rparr>)\<rparr>)
           (connection_default\<lparr>ws := Some (new_socket\<lparr>ready := STATE_OPEN\<rparr>),
                               state := AUTHENTICATED, token := ''token''\<rparr>)
           (1 / 60)))
        2
      = (connection_default
           \<lparr>ws := Some new_socket, state := DISCONNECTED, token := ''token'',
            is_reconnecting := True, reconnect_attempts := 1, was_authenticated := True,
            reconnect_timer := 4\<rparr>,
         [])"
  by (simp add: poll_def poll_socket_def poll_reconnect_def poll_ping_def poll_match_timeout_def
        on_disconnected_def attempt_reconnect_def start_reconnection_def schedule_reconnect_def
        pow2_def clear_user_info_def sample_engine_def new_socket_def
        connection_default_def CLOSE_INVALID_SESSION_def CLOSE_RATE_LIMITED_def
        CLOSE_MESSAGE_TOO_LARGE_def Let_def MATCH_RECONNECT_TIMEOUT_def)

section \<open>Sending input (C6)\<close>

lemma clampf_max_min: "clampf v (- 1) 1 = max (- 1) (min 1 v)"
  by (simp add: clampf_def)

text \<open>
  C6, as stated: the validated record has three coerced booleans. It has four:
  \<open>jump\<close>, \<open>pickup\<close>, \<open>use_weapon\<close> and \<open>drop_weapon\<close>.
\<close>

theorem validated_input_has_four_booleans:
  "length (filter (\<lambda>kv. case snd kv of VBool b \<Rightarrow> True | _ \<Rightarrow> False)
             (validate_input sample_engine [])) \<noteq> 3"
  by (simp add: validate_input_def)

text \<open>
  C6, amended: \<open>send_input\<close> does nothing (nothing sent, nothing stored, tick
  unchanged) unless the match is playing and the connection is authenticated. The
  validated record is the input's two movement axes (0 when missing) converted to float
  and clamped to [-1, 1], its four booleans \<open>jump\<close>, \<open>pickup\<close>, \<open>use_weapon\<close>
  and \<open>drop_weapon\<close> (false when missing) converted to bool, and its aim angle (0 when
  missing) converted to float. An accepted call adds one to the tick counter, passes the
  message with the new tick and the validated record to \<open>send_message\<close>, which writes
  it to the socket within the call, stores the record under the new tick as the last entry
  of the buffer, and emits \<open>input_sent\<close>.
\<close>

theorem send_input_gate_and_record:
  "(\<not> is_playing \<or> connection = None \<or> (\<exists>c'. connection = Some c' \<and> \<not> is_authenticated c')
      \<longrightarrow> send_input e s connection inp is_playing = (s, connection, []))
   \<and> validate_input e inp
       = [(VStr ''move_x'',
             VFloat (max (- 1) (min 1 (float_of e (dict_get inp ''move_x'' (VFloat 0)))))),
          (VStr ''move_y'',
             VFloat (max (- 1) (min 1 (float_of e (dict_get inp ''move_y'' (VFloat 0)))))),
          (VStr ''jump'', VBool (bool_of e (dict_get inp ''jump'' (VBool False)))),
          (VStr ''pickup'', VBool (bool_of e (dict_get inp ''pickup'' (VBool False)))),
          (VStr ''use_weapon'', VBool (bool_of e (dict_get inp ''use_weapon'' (VBool False)))),
          (VStr ''drop_weapon'', VBool (bool_of e (dict_get inp ''drop_weapon'' (VBool False)))),
          (VStr ''aim_angle'', VFloat (float_of e (dict_get inp ''aim_angle'' (VFloat 0))))]
   \<and> - 1 \<le> max (- 1) (min 1 (float_of e (dict_get inp ''move_x'' (VFloat 0))))
   \<and> max (- 1) (min 1 (float_of e (dict_get inp ''move_x'' (VFloat 0)))) \<le> 1
   \<and> - 1 \<le> max (- 1) (min 1 (float_of e (dict_get inp ''move_y'' (VFloat 0))))
   \<and> max (- 1) (min 1 (float_of e (dict_get inp ''move_y'' (VFloat 0)))) \<le> 1
   \<and> (is_playing \<and> is_authenticated c \<longrightarrow>
        send_input e s (Some c) inp is_playing
          = (s\<lparr>current_tick := current_tick s + 1,
               inputs_sent := inputs_sent s + 1,
               input_buffer :=
                 drop (length (input_buffer s) + 1 - 60)
                   (input_buffer s
                    @ [\<lparr>tick = current_tick s + 1, input = validate_input e inp\<rparr>])\<rparr>,
             Some (send_message e c
                     [(VStr ''type'', VStr ''player_input''),
                      (VStr ''timestamp'', VInt (ticks_msec e)),
                      (VStr ''tick'', VInt (current_tick s + 1)),
                      (VStr ''input'', VDict (validate_input e inp))]),
             [Sig_input_sent (current_tick s + 1) (validate_input e inp)])
        \<and> last (input_buffer (fst (send_input e s (Some c) inp is_playing)))
            = \<lparr>tick = current_tick s + 1, input = validate_input e inp\<rparr>
        \<and> (\<forall>w. ws c = Some w \<longrightarrow>
              send_message e c
                [(VStr ''type'', VStr ''player_input''),
                 (VStr ''timestamp'', VInt (ticks_msec e)),
                 (VStr ''tick'', VInt (current_tick s + 1)),
                 (VStr ''input'', VDict (validate_input e inp))]
                = c\<lparr>ws := Some (w\<lparr>sent_text := sent_text w
                            @ [json_stringify e
                                 [(VStr ''type'', VStr ''player_input''),
                                  (VStr ''timestamp'', VInt (ticks_msec e)),
                                  (VStr ''tick'', VInt (current_tick s + 1)),
                                  (VStr ''input'', VDict (validate_input e inp))]]\<rparr>),
                    messages_sent := messages_sent c + 1,
                    bytes_sent := bytes_sent c
                      + int (length (json_stringify e
                                 [(VStr ''type'', VStr ''player_input''),
                                  (VStr ''timestamp'', VInt (ticks_msec e)),
                                  (VStr ''tick'', VInt (current_tick s + 1)),
                                  (VStr ''input'', VDict (validate_input e inp))]))\<rparr>))"
proof (intro conjI impI)
  assume "\<not> is_playing \<or> connection = None \<or> (\<exists>c'. connection = Some c' \<and> \<not> is_authenticated c')"
  then show "send_input e s connection inp is_playing = (s, connection, [])"
    by (auto simp: send_input_def split: option.splits)
next
  show "validate_input e inp
       = [(VStr ''move_x'',
             VFloat (max (- 1) (min 1 (float_of e (dict_get inp ''move_x'' (VFloat 0)))))),
          (VStr ''move_y'',
             VFloat (max (- 1) (min 1 (float_of e (dict_get inp ''move_y'' (VFloat 0)))))),
          (VStr ''jump'', VBool (bool_of e (dict_get inp ''jump'' (VBool False)))),
          (VStr ''pickup'', VBool (bool_of e (dict_get inp ''pickup'' (VBool False)))),
          (VStr ''use_weapon'', VBool (bool_of e (dict_get inp ''use_weapon'' (VBool False)))),
          (VStr ''drop_weapon'', VBool (bool_of e (dict_get inp ''drop_weapon'' (VBool False)))),
          (VStr ''aim_angle'', VFloat (float_of e (dict_get inp ''aim_angle'' (VFloat 0))))]"
    by (simp only: validate_input_def clampf_max_min)
next
  assume acc: "is_playing \<and> is_authenticated c"
  show "send_input e s (Some c) inp is_playing
          = (s\<lparr>current_tick := current_tick s + 1,
               inputs_sent := inputs_sent s + 1,
               input_buffer :=
                 drop (length (input_buffer s) + 1 - 60)
                   (input_buffer s
                    @ [\<lparr>tick = current_tick s + 1, input = validate_input e inp\<rparr>])\<rparr>,
             Some (send_message e c
                     [(VStr ''type'', VStr ''player_input''),
                      (VStr ''timestamp'', VInt (ticks_msec e)),
                      (VStr ''tick'', VInt (current_tick s + 1)),
                      (VStr ''input'', VDict (validate_input e inp))]),
             [Sig_input_sent (current_tick s + 1) (validate_input e inp)])"
    using acc
    by (simp add: send_input_def Let_def store_input_def pop_front_while_over_drop
          INPUT_BUFFER_SIZE_def input_message_def MSG_PLAYER_INPUT_def)
  show "last (input_buffer (fst (send_input e s (Some c) inp is_playing)))
            = \<lparr>tick = current_tick s + 1, input = validate_input e inp\<rparr>"
    using acc
    by (simp add: send_input_def Let_def store_input_def pop_front_while_over_drop
          INPUT_BUFFER_SIZE_def)
  show "\<forall>w. ws c = Some w \<longrightarrow>
              send_message e c
                [(VStr ''type'', VStr ''player_input''),
                 (VStr ''timestamp'', VInt (ticks_msec e)),
                 (VStr ''tick'', VInt (current_tick s + 1)),
                 (VStr ''input'', VDict (validate_input e inp))]
                = c\<lparr>ws := Some (w\<lparr>sent_text := sent_text w
                            @ [json_stringify e
                                 [(VStr ''type'', VStr ''player_input''),
                                  (VStr ''timestamp'', VInt (ticks_msec e)),
                                  (VStr ''tick'', VInt (current_tick s + 1)),
                                  (VStr ''input'', VDict (validate_input e inp))]]\<rparr>),
                    messages_sent := messages_sent c + 1,
                    bytes_sent := bytes_sent c
                      + int (length (json_stringify e
                                 [(VStr ''type'', VStr ''player_input''),
                                  (VStr ''timestamp'', VInt (ticks_msec e)),
                                  (VStr ''tick'', VInt (current_tick s + 1)),
                                  (VStr ''input'', VDict (validate_input e inp))]))\<rparr>"
    using acc by (simp add: send_message_def is_authenticated_def Let_def)
qed simp_all

theorem send_input_gate_and_record_witness:
  "(True \<and> is_authenticated (connection_default\<lparr>state := AUTHENTICATED, ws := Some new_socket\<rparr>))
   \<and> ws (connection_default\<lparr>state := AUTHENTICATED, ws := Some new_socket\<rparr>) = Some new_socket
   \<and> send_input sample_engine shard_input_init (Some connection_default)
        [(VStr ''move_x'', VFloat 3)] False
       = (shard_input_init, Some connection_default, [])
   \<and> validate_input sample_engine
        [(VStr ''move_x'', VFloat 3), (VStr ''move_y'', VFloat (- 1 / 2)), (VStr ''jump'', VInt 1),
         (VStr ''pickup'', VBool True), (VStr ''use_weapon'', VBool True),
         (VStr ''drop_weapon'', VBool True), (VStr ''aim_angle'', VFloat 2)]
       = [(VStr ''move_x'', VFloat 1), (VStr ''move_y'', VFloat (- 1 / 2)),
          (VStr ''jump'', VBool True), (VStr ''pickup'', VBool True),
          (VStr ''use_weapon'', VBool True), (VStr ''drop_weapon'', VBool True),
          (VStr ''aim_angle'', VFloat 2)]
   \<and> current_tick (fst (send_input sample_engine shard_input_init
        (Some (connection_default\<lparr>state := AUTHENTICATED, ws := Some new_socket\<rparr>))
        [(VStr ''move_x'', VFloat 3), (VStr ''move_y'', VFloat (- 1 / 2)), (VStr ''jump'', VInt 1),
         (VStr ''pickup'', VBool True), (VStr ''use_weapon'', VBool True),
         (VStr ''drop_weapon'', VBool True), (VStr ''aim_angle'', VFloat 2)] True)) = 1
   \<and> map tick (input_buffer (fst (send_input sample_engine shard_input_init
        (Some (connection_default\<lparr>state := AUTHENTICATED, ws := Some new_socket\<rparr>))
        [(VStr ''move_x'', VFloat 3), (VStr ''move_y'', VFloat (- 1 / 2)), (VStr ''jump'', VInt 1),
         (VStr ''pickup'', VBool True), (VStr ''use_weapon'', VBool True),
         (VStr ''drop_weapon'', VBool True), (VStr ''aim_angle'', VFloat 2)] True))) = [1]
   \<and> map_option sent_text (ws (the (fst (snd (send_input sample_engine shard_input_init
        (Some (connection_default\<lparr>state := AUTHENTICATED, ws := Some new_socket\<rparr>))
        [(VStr ''move_x'', VFloat 3), (VStr ''move_y'', VFloat (- 1 / 2)), (VStr ''jump'', VInt 1),
         (VStr ''pickup'', VBool True), (VStr ''use_weapon'', VBool True),
         (VStr ''drop_weapon'', VBool True), (VStr ''aim_angle'', VFloat 2)] True))))) = Some [''{}'']"
  using send_input_gate_and_record
    [where is_playing = True and e = sample_engine and s = shard_input_init
       and c = "connection_default\<lparr>state := AUTHENTICATED, ws := Some new_socket\<rparr>"
       and inp = "[(VStr ''move_x'', VFloat 3), (VStr ''move_y'', VFloat (- 1 / 2)), (VStr ''jump'', VInt 1),
         (VStr ''pickup'', VBool True), (VStr ''use_weapon'', VBool True),
         (VStr ''drop_weapon'', VBool True), (VStr ''aim_angle'', VFloat 2)]"]
    send_input_gate_and_record
    [where is_playing = False and e = sample_engine and s = shard_input_init
       and connection = "Some connection_default"
       and inp = "[(VStr ''move_x'', VFloat 3)]"]
  by (simp add: is_authenticated_def connection_default_def validate_input_def sample_engine_def
        dict_get_def clampf_def shard_input_init_def send_input_def Let_def store_input_def
        pop_front_while_over_drop INPUT_BUFFER_SIZE_def send_message_def new_socket_def)

section \<open>Interpolation (C3)\<close>

text \<open>
  The search loop \<open>find_bracket\<close> returns the first adjacent pair of snapshots whose
  receipt times bracket the target, and none exactly when no adjacent pair does.
\<close>

lemma find_bracket_first:
  "brackets target snaps i \<Longrightarrow> \<forall>j<i. \<not> brackets target snaps j \<Longrightarrow>
     find_bracket target snaps = Some (snaps ! i, snaps ! Suc i)"
proof (induction i arbitrary: snaps)
  case 0
  then obtain a b rest where "snaps = a # b # rest"
    by (cases snaps; cases "tl snaps") (auto simp: brackets_def)
  then show ?case using 0 by (simp add: brackets_def)
next
  case (Suc i)
  then obtain a b rest where snaps: "snaps = a # b # rest"
    by (cases snaps; cases "tl snaps") (auto simp: brackets_def)
  from Suc.prems(2) have "\<not> brackets target snaps 0" by simp
  then have skip: "find_bracket target snaps = find_bracket target (b # rest)"
    by (auto simp: snaps brackets_def)
  have "brackets target (b # rest) i" using Suc.prems(1) by (simp add: snaps brackets_def)
  moreover have "\<forall>j<i. \<not> brackets target (b # rest) j"
  proof (intro allI impI)
    fix j assume "j < i"
    then have "\<not> brackets target snaps (Suc j)" using Suc.prems(2) by simp
    then show "\<not> brackets target (b # rest) j" by (simp add: snaps brackets_def)
  qed
  ultimately have "find_bracket target (b # rest) = Some ((b # rest) ! i, (b # rest) ! Suc i)"
    by (rule Suc.IH)
  then show ?case unfolding skip by (simp add: snaps)
qed

lemma find_bracket_none:
  "\<forall>i. \<not> brackets target snaps i \<Longrightarrow> find_bracket target snaps = None"
proof (induction target snaps rule: find_bracket.induct)
  case (1 target a b rest)
  from 1(2) have no0: "\<not> brackets target (a # b # rest) 0" by blast
  then have cond: "\<not> (of_int (server_time a) \<le> target \<and> of_int (server_time b) \<ge> target)"
    by (simp add: brackets_def)
  have "\<forall>i. \<not> brackets target (b # rest) i"
  proof
    fix i
    from 1(2) have "\<not> brackets target (a # b # rest) (Suc i)" by blast
    then show "\<not> brackets target (b # rest) i" by (simp add: brackets_def)
  qed
  with 1(1) [OF cond] cond show ?case by simp
qed simp_all

lemma interpolate_one:
  assumes ops: "\<forall>p\<in>set ops. player_ok p" and new: "player_ok (VDict np)"
  shows "\<exists>pid found res.
           as_int (dict_get np ''peer_id'' (VInt (- 1))) = Some pid
           \<and> find_player_in ops pid = Ok found
           \<and> (case found of Some op \<Rightarrow> interpolate_player op np t | None \<Rightarrow> Ok (VDict np)) = Ok res
           \<and> blended ops t (VDict np) res"
proof -
  from new obtain pid nx ny where pid: "as_int (dict_get np ''peer_id'' (VInt (- 1))) = Some pid"
    and nx: "num (dict_get np ''x'' (VFloat 0)) = Some nx"
    and ny: "num (dict_get np ''y'' (VFloat 0)) = Some ny"
    by (auto simp: player_ok_def)
  from find_player_in_cases [OF ops, of pid]
  consider (found) op where "first_with_peer ops pid op" "VDict op \<in> set ops"
    | (none) "\<forall>q\<in>set ops. other_peer pid q" by blast
  then show ?thesis
  proof cases
    case none
    then show ?thesis using pid find_player_in_none [OF none] by (auto simp: blended_def)
  next
    case found
    with ops have "player_ok (VDict op)" by blast
    then obtain ox oy where ox: "num (dict_get op ''x'' (VFloat 0)) = Some ox"
      and oy: "num (dict_get op ''y'' (VFloat 0)) = Some oy"
      by (auto simp: player_ok_def)
    have fp: "find_player_in ops pid = Ok (Some op)" by (rule find_player_in_first [OF found(1)])
    have "blended ops t (VDict np)
            (VDict
               [(VStr ''peer_id'', dict_get np ''peer_id'' (VInt (- 1))),
                (VStr ''x'', VFloat (ox + (nx - ox) * t)),
                (VStr ''y'', VFloat (oy + (ny - oy) * t)),
                (VStr ''vx'', dict_get np ''vx'' (VFloat 0)),
                (VStr ''vy'', dict_get np ''vy'' (VFloat 0)),
                (VStr ''health'', dict_get np ''health'' (VInt 100)),
                (VStr ''weapon'', dict_get np ''weapon'' VNull),
                (VStr ''weapon_cooldown'', dict_get np ''weapon_cooldown'' (VFloat 0)),
                (VStr ''state'', dict_get np ''state'' (VStr ''alive''))])"
      unfolding blended_def using pid found(1) ox oy nx ny by blast
    then show ?thesis using pid fp ox oy nx ny
      by (simp add: interpolate_player_def lerpf_def)
  qed
qed

lemma interpolate_players_in_blended:
  assumes ops: "\<forall>p\<in>set ops. player_ok p"
  shows "\<forall>p\<in>set nps. player_ok p \<Longrightarrow>
           \<exists>ps. interpolate_players_in ops nps t = Ok ps \<and> list_all2 (blended ops t) nps ps"
proof (induction nps)
  case Nil
  then show ?case by simp
next
  case (Cons new_player rest)
  then obtain np where np: "new_player = VDict np" by (cases new_player) (auto simp: player_ok_def)
  with Cons.prems have "player_ok (VDict np)" by simp
  from interpolate_one [OF ops this, of t] obtain pid found res where
    one: "as_int (dict_get np ''peer_id'' (VInt (- 1))) = Some pid"
         "find_player_in ops pid = Ok found"
         "(case found of Some op \<Rightarrow> interpolate_player op np t | None \<Rightarrow> Ok (VDict np)) = Ok res"
         "blended ops t (VDict np) res"
    by blast
  from Cons obtain ps where ps: "interpolate_players_in ops rest t = Ok ps"
    "list_all2 (blended ops t) rest ps"
    by auto
  have "interpolate_players_in ops (new_player # rest) t = Ok (res # ps)"
    using np one(1-3) ps(1) by (simp add: find_player_by_peer_id_def)
  then show ?case using one(4) ps(2) np by simp
qed

text \<open>
  C3: with fewer than two snapshots, or when no adjacent pair of snapshots has receipt
  times that bracket \<open>target = render_time - interpolation_delay\<close>,
  \<open>get_interpolated_state\<close> returns the latest snapshot as it is (nothing, when no
  snapshot is buffered) and meets no error. When the snapshots at positions \<open>i\<close> and
  \<open>i + 1\<close> are the first adjacent pair that brackets the target and their players are
  well formed, the call meets no error either and returns the newer snapshot with its
  receipt time blended and each of its players as \<open>blended\<close> says: a player whose peer
  is listed in the older snapshot has its position at \<open>old + (new - old) * t\<close> and its
  velocity, health, weapon, cooldown and status from the newer snapshot, a player whose
  peer is not listed there is returned unchanged; here
  \<open>t = clamp((target - older.time) / (newer.time - older.time), 0, 1)\<close>, and \<open>t = 0\<close>
  in the one case where the quotient is undefined, two snapshots received in the same
  millisecond.
\<close>

theorem interpolation_blends_positions:
  "(target = render_time - of_int (interpolation_delay s)
      \<and> (length (snapshots s) < 2 \<or> (\<forall>i. \<not> brackets target (snapshots s) i))
      \<longrightarrow> get_interpolated_state s render_time
            = Ok (if snapshots s = [] then None else Some (last (snapshots s))))
   \<and> (target = render_time - of_int (interpolation_delay s)
        \<and> brackets target (snapshots s) i \<and> (\<forall>j<i. \<not> brackets target (snapshots s) j)
        \<and> older = snapshots s ! i \<and> newer = snapshots s ! Suc i
        \<and> players older = VArray ops \<and> players newer = VArray nps
        \<and> (\<forall>p\<in>set ops \<union> set nps. player_ok p)
        \<and> t = (if server_time older < server_time newer
                then clampf ((target - of_int (server_time older))
                              / (of_int (server_time newer) - of_int (server_time older))) 0 1
                else 0)
      \<longrightarrow> 0 \<le> t \<and> t \<le> 1
          \<and> (\<exists>ps. get_interpolated_state s render_time
                     = Ok (Some (newer
                         \<lparr>server_time :=
                            trunc (of_int (server_time older)
                                   + (of_int (server_time newer) - of_int (server_time older)) * t),
                          players := VArray ps\<rparr>))
                   \<and> list_all2 (blended ops t) nps ps))"
proof (intro conjI impI)
  assume a: "target = render_time - of_int (interpolation_delay s)
      \<and> (length (snapshots s) < 2 \<or> (\<forall>i. \<not> brackets target (snapshots s) i))"
  then have tg: "target = render_time - of_int (interpolation_delay s)" by blast
  from a consider "length (snapshots s) < 2" | "\<forall>i. \<not> brackets target (snapshots s) i" by blast
  then show "get_interpolated_state s render_time
            = Ok (if snapshots s = [] then None else Some (last (snapshots s)))"
  proof cases
    case 1
    then show ?thesis by (simp add: get_interpolated_state_def get_latest_state_def)
  next
    case 2
    from find_bracket_none [OF 2] show ?thesis
      by (simp add: get_interpolated_state_def get_latest_state_def Let_def tg)
  qed
next
  assume a: "target = render_time - of_int (interpolation_delay s)
        \<and> brackets target (snapshots s) i \<and> (\<forall>j<i. \<not> brackets target (snapshots s) j)
        \<and> older = snapshots s ! i \<and> newer = snapshots s ! Suc i
        \<and> players older = VArray ops \<and> players newer = VArray nps
        \<and> (\<forall>p\<in>set ops \<union> set nps. player_ok p)
        \<and> t = (if server_time older < server_time newer
                then clampf ((target - of_int (server_time older))
                              / (of_int (server_time newer) - of_int (server_time older))) 0 1
                else 0)"
  then have tg: "target = render_time - of_int (interpolation_delay s)"
    and br: "brackets target (snapshots s) i"
    and first: "\<forall>j<i. \<not> brackets target (snapshots s) j"
    and on: "older = snapshots s ! i" "newer = snapshots s ! Suc i"
    and po: "players older = VArray ops" and pn: "players newer = VArray nps"
    and tdef: "t = (if server_time older < server_time newer
                then clampf ((target - of_int (server_time older))
                              / (of_int (server_time newer) - of_int (server_time older))) 0 1
                else 0)"
    by blast+
  from find_bracket_first [OF br first]
  have fb: "find_bracket target (snapshots s) = Some (older, newer)" by (simp add: on)
  have len: "2 \<le> length (snapshots s)" using br by (simp add: brackets_def)
  have t: "interpolation_t target older newer = t"
    unfolding tdef by (simp add: interpolation_t_def Let_def clampf_def)
  show "0 \<le> t" "t \<le> 1" unfolding tdef by (simp_all add: clampf_def)
  from a have "\<forall>p\<in>set ops. player_ok p" "\<forall>p\<in>set nps. player_ok p" by auto
  from interpolate_players_in_blended [OF this, of t]
  obtain ps where ps: "interpolate_players_in ops nps t = Ok ps" "list_all2 (blended ops t) nps ps"
    by blast
  have "get_interpolated_state s render_time
          = Ok (Some (newer
               \<lparr>server_time :=
                  trunc (of_int (server_time older)
                         + (of_int (server_time newer) - of_int (server_time older)) * t),
                players := VArray ps\<rparr>))"
    using len ps(1) t [unfolded tg] fb [unfolded tg] po pn
    by (cases newer) (simp add: get_interpolated_state_def Let_def interpolate_players_def lerpf_def)
  with ps(2) show "\<exists>ps. get_interpolated_state s render_time
                     = Ok (Some (newer
                         \<lparr>server_time :=
                            trunc (of_int (server_time older)
                                   + (of_int (server_time newer) - of_int (server_time older)) * t),
                          players := VArray ps\<rparr>))
                   \<and> list_all2 (blended ops t) nps ps"
    by blast
qed

theorem interpolation_blends_positions_witness:
  "brackets 1050
     [sample_snapshot 900 [] [],
      sample_snapshot 1000 []
        [VDict [(VStr ''peer_id'', VFloat 2), (VStr ''x'', VFloat 50), (VStr ''y'', VFloat 50)],
         VDict [(VStr ''peer_id'', VFloat 1), (VStr ''x'', VFloat 0), (VStr ''y'', VFloat 0)]],
      sample_snapshot 1100 []
        [VDict [(VStr ''peer_id'', VFloat 1), (VStr ''x'', VFloat 10), (VStr ''y'', VFloat 20),
                (VStr ''vx'', VFloat 3), (VStr ''health'', VFloat 80)],
         VDict [(VStr ''peer_id'', VFloat 3), (VStr ''x'', VFloat 5), (VStr ''y'', VFloat 5)]]] 1
   \<and> \<not> brackets 1050
     [sample_snapshot 900 [] [],
      sample_snapshot 1000 []
        [VDict [(VStr ''peer_id'', VFloat 2), (VStr ''x'', VFloat 50), (VStr ''y'', VFloat 50)],
         VDict [(VStr ''peer_id'', VFloat 1), (VStr ''x'', VFloat 0), (VStr ''y'', VFloat 0)]],
      sample_snapshot 1100 []
        [VDict [(VStr ''peer_id'', VFloat 1), (VStr ''x'', VFloat 10), (VStr ''y'', VFloat 20),
                (VStr ''vx'', VFloat 3), (VStr ''health'', VFloat 80)],
         VDict [(VStr ''peer_id'', VFloat 3), (VStr ''x'', VFloat 5), (VStr ''y'', VFloat 5)]]] 0
   \<and> player_ok (VDict [(VStr ''peer_id'', VFloat 2), (VStr ''x'', VFloat 50), (VStr ''y'', VFloat 50)])
   \<and> player_ok (VDict [(VStr ''peer_id'', VFloat 1), (VStr ''x'', VFloat 0), (VStr ''y'', VFloat 0)])
   \<and> player_ok (VDict [(VStr ''peer_id'', VFloat 1), (VStr ''x'', VFloat 10), (VStr ''y'', VFloat 20),
                (VStr ''vx'', VFloat 3), (VStr ''health'', VFloat 80)])
   \<and> player_ok (VDict [(VStr ''peer_id'', VFloat 3), (VStr ''x'', VFloat 5), (VStr ''y'', VFloat 5)])
   \<and> get_interpolated_state
        \<lparr>snapshots =
           [sample_snapshot 900 [] [],
            sample_snapshot 1000 []
              [VDict [(VStr ''peer_id'', VFloat 2), (VStr ''x'', VFloat 50), (VStr ''y'', VFloat 50)],
               VDict [(VStr ''peer_id'', VFloat 1), (VStr ''x'', VFloat 0), (VStr ''y'', VFloat 0)]],
            sample_snapshot 1100 []
              [VDict [(VStr ''peer_id'', VFloat 1), (VStr ''x'', VFloat 10), (VStr ''y'', VFloat 20),
                      (VStr ''vx'', VFloat 3), (VStr ''health'', VFloat 80)],
               VDict [(VStr ''peer_id'', VFloat 3), (VStr ''x'', VFloat 5), (VStr ''y'', VFloat 5)]]],
         interpolation_delay = 100, snapshots_received = 3\<rparr> 1150
       = Ok (Some (sample_snapshot 1050 []
           [VDict [(VStr ''peer_id'', VFloat 1), (VStr ''x'', VFloat 5), (VStr ''y'', VFloat 10),
                   (VStr ''vx'', VFloat 3), (VStr ''vy'', VFloat 0), (VStr ''health'', VFloat 80),
                   (VStr ''weapon'', VNull), (VStr ''weapon_cooldown'', VFloat 0),
                   (VStr ''state'', VStr ''alive'')],
            VDict [(VStr ''peer_id'', VFloat 3), (VStr ''x'', VFloat 5), (VStr ''y'', VFloat 5)]]))
   \<and> get_interpolated_state
        \<lparr>snapshots =
           [sample_snapshot 900 [] [],
            sample_snapshot 1000 []
              [VDict [(VStr ''peer_id'', VFloat 2), (VStr ''x'', VFloat 50), (VStr ''y'', VFloat 50)],
               VDict [(VStr ''peer_id'', VFloat 1), (VStr ''x'', VFloat 0), (VStr ''y'', VFloat 0)]],
            sample_snapshot 1100 []
              [VDict [(VStr ''peer_id'', VFloat 1), (VStr ''x'', VFloat 10), (VStr ''y'', VFloat 20),
                      (VStr ''vx'', VFloat 3), (VStr ''health'', VFloat 80)],
               VDict [(VStr ''peer_id'', VFloat 3), (VStr ''x'', VFloat 5), (VStr ''y'', VFloat 5)]]],
         interpolation_delay = 100, snapshots_received = 3\<rparr> 5000
       = Ok (Some (sample_snapshot 1100 []
              [VDict [(VStr ''peer_id'', VFloat 1), (VStr ''x'', VFloat 10), (VStr ''y'', VFloat 20),
                      (VStr ''vx'', VFloat 3), (VStr ''health'', VFloat 80)],
               VDict [(VStr ''peer_id'', VFloat 3), (VStr ''x'', VFloat 5), (VStr ''y'', VFloat 5)]]))"
proof -
  let ?o = "[VDict [(VStr ''peer_id'', VFloat 2), (VStr ''x'', VFloat 50), (VStr ''y'', VFloat 50)],
             VDict [(VStr ''peer_id'', VFloat 1), (VStr ''x'', VFloat 0), (VStr ''y'', VFloat 0)]]"
  let ?n = "[VDict [(VStr ''peer_id'', VFloat 1), (VStr ''x'', VFloat 10), (VStr ''y'', VFloat 20),
                    (VStr ''vx'', VFloat 3), (VStr ''health'', VFloat 80)],
             VDict [(VStr ''peer_id'', VFloat 3), (VStr ''x'', VFloat 5), (VStr ''y'', VFloat 5)]]"
  let ?snaps = "[sample_snapshot 900 [] [], sample_snapshot 1000 [] ?o, sample_snapshot 1100 [] ?n]"
  let ?s = "\<lparr>snapshots = ?snaps, interpolation_delay = 100, snapshots_received = 3\<rparr>"
  have none: "\<forall>i. \<not> brackets 4900 ?snaps i"
    by (auto simp: brackets_def sample_snapshot_def less_Suc_eq numeral_3_eq_3 nth_Cons')
  show ?thesis
    using interpolation_blends_positions
      [where s = ?s and render_time = 1150 and target = 1050 and t = "1 / 2" and i = 1
         and older = "sample_snapshot 1000 [] ?o" and newer = "sample_snapshot 1100 [] ?n"
         and ops = ?o and nps = ?n]
      interpolation_blends_positions [where s = ?s and render_time = 5000 and target = 4900]
      none
    by (simp add: sample_snapshot_def player_ok_def dict_get_def trunc_def clampf_def
          brackets_def get_interpolated_state_def interpolate_players_def
          find_player_by_peer_id_def interpolate_player_def interpolation_t_def lerpf_def
          get_latest_state_def Let_def)
qed

section \<open>Reconciliation (C1)\<close>








lemma clear_inputs_dropWhile:
  "clear_inputs_before_tick ih t
     = ih\<lparr>input_buffer := dropWhile (\<lambda>entry. tick entry \<le> t) (input_buffer ih)\<rparr>"
  by (simp add: clear_inputs_before_tick_def pop_front_while_le_dropWhile)

lemma validate_input_move_x:
  "num (dict_get (validate_input e inp) ''move_x'' (VFloat 0)) \<noteq> None"
  by (simp add: validate_input_def dict_get_def)

lemma stored_inputs_numeric:
  assumes "\<forall>entry\<in>set (input_buffer s). num (dict_get (input entry) ''move_x'' (VFloat 0)) \<noteq> None"
  shows "(\<forall>entry\<in>set (input_buffer (fst (send_input e s connection inp is_playing))).
            num (dict_get (input entry) ''move_x'' (VFloat 0)) \<noteq> None)
         \<and> (\<forall>entry\<in>set (input_buffer (set_tick s t)).
            num (dict_get (input entry) ''move_x'' (VFloat 0)) \<noteq> None)
         \<and> (\<forall>entry\<in>set (input_buffer (clear_inputs_before_tick s t)).
            num (dict_get (input entry) ''move_x'' (VFloat 0)) \<noteq> None)
         \<and> (\<forall>entry\<in>set (input_buffer (input_reset s)).
            num (dict_get (input entry) ''move_x'' (VFloat 0)) \<noteq> None)"
proof (intro conjI)
  let ?all = "input_buffer s @ [\<lparr>tick = current_tick s + 1, input = validate_input e inp\<rparr>]"
  have "input_buffer (fst (send_input e s connection inp is_playing)) = input_buffer s
        \<or> input_buffer (fst (send_input e s connection inp is_playing))
             = drop (length ?all - 60) ?all"
    by (simp add: send_input_def Let_def store_input_def pop_front_while_over_drop
          INPUT_BUFFER_SIZE_def split: option.splits)
  moreover have "\<forall>entry\<in>set ?all. num (dict_get (input entry) ''move_x'' (VFloat 0)) \<noteq> None"
    using assms validate_input_move_x [of e inp] by auto
  then have "\<forall>entry\<in>set (drop (length ?all - 60) ?all).
               num (dict_get (input entry) ''move_x'' (VFloat 0)) \<noteq> None"
    by (meson in_set_dropD)
  ultimately show "\<forall>entry\<in>set (input_buffer (fst (send_input e s connection inp is_playing))).
            num (dict_get (input entry) ''move_x'' (VFloat 0)) \<noteq> None"
    using assms by auto
  show "\<forall>entry\<in>set (input_buffer (clear_inputs_before_tick s t)).
            num (dict_get (input entry) ''move_x'' (VFloat 0)) \<noteq> None"
    using assms by (auto simp: clear_inputs_dropWhile dest: set_dropWhileD)
qed (use assms in \<open>simp_all add: set_tick_def input_reset_def\<close>)

lemma send_input_keeps_ticks_sorted:
  assumes "sorted (map tick (input_buffer s))"
    and "\<forall>entry\<in>set (input_buffer s). tick entry \<le> current_tick s"
  shows "sorted (map tick (input_buffer (fst (send_input e s connection inp is_playing))))
         \<and> (\<forall>entry\<in>set (input_buffer (fst (send_input e s connection inp is_playing))).
               tick entry \<le> current_tick (fst (send_input e s connection inp is_playing)))"
proof (cases "is_playing \<and> (\<exists>c. connection = Some c \<and> is_authenticated c)")
  case False
  then have "fst (send_input e s connection inp is_playing) = s"
    by (auto simp: send_input_def split: option.splits)
  then show ?thesis using assms by simp
next
  case True
  then obtain c where c: "connection = Some c" "is_authenticated c" "is_playing" by auto
  let ?new = "\<lparr>tick = current_tick s + 1, input = validate_input e inp\<rparr>"
  let ?all = "input_buffer s @ [?new]"
  have buf: "input_buffer (fst (send_input e s connection inp is_playing))
               = drop (length ?all - 60) ?all"
    and cur: "current_tick (fst (send_input e s connection inp is_playing)) = current_tick s + 1"
    using c
    by (simp_all add: send_input_def Let_def store_input_def pop_front_while_over_drop
          INPUT_BUFFER_SIZE_def)
  have sorted_all: "sorted (map tick ?all)"
    using assms(1,2) by (auto simp: sorted_append)
  have "sorted (map tick (drop (length ?all - 60) ?all))"
    using sorted_all by (simp only: drop_map [symmetric] sorted_wrt_drop)
  moreover have "\<forall>entry\<in>set ?all. tick entry \<le> current_tick s + 1"
    using assms(2) by auto
  then have "\<forall>entry\<in>set (drop (length ?all - 60) ?all). tick entry \<le> current_tick s + 1"
    by (meson in_set_dropD)
  ultimately show ?thesis unfolding buf cur by blast
qed




end
